theory Spec2Isabelle
  imports Complex_Main
begin

chapter \<open>The two agents\<close>

section \<open>Tables\<close>

text \<open>
  Both agents read a pandas \<^verbatim>\<open>DataFrame\<close>. The model keeps what the two
  \<^verbatim>\<open>detect_signals\<close> methods look at: the name of the index (the frame that
  \<^verbatim>\<open>get_data_in_range\<close> builds names it \<^verbatim>\<open>date\<close>), the row labels of the index and
  the columns by label. Python floats are idealised as real numbers, so every cell is a
  \<^typ>\<open>real\<close>: an integer label is that number, and a datetime is its number of
  nanoseconds since the epoch, which is also what \<^verbatim>\<open>pd.to_datetime\<close> makes of an
  integer. NaN/NaT cells and columns of mixed type are outside the model.
\<close>

datatype error = ValueError string | KeyError string

record data_frame =
  index_name :: "string option"
  index :: "real list"
  columns :: "(string \<times> real list) list"

definition labels :: "data_frame \<Rightarrow> string list" where
  "labels df = map fst (columns df)"

definition column :: "data_frame \<Rightarrow> string \<Rightarrow> real list option" where
  "column df c = map_of (columns df) c"

definition nrows :: "data_frame \<Rightarrow> nat" where
  "nrows df = length (index df)"

text \<open>
  A frame has one value per row in every column, and no label twice. Under a label that
  occurs twice pandas hands back a sub-table where the agents expect a cell, so the
  properties that read a cell by its label are stated for frames with distinct labels.
\<close>

definition wf_frame :: "data_frame \<Rightarrow> bool" where
  "wf_frame df \<longleftrightarrow>
     distinct (labels df) \<and> list_all (\<lambda>cv. length (snd cv) = nrows df) (columns df)"

text \<open>\<^verbatim>\<open>df.iloc[p]\<close> for a list of positions: the rows at \<open>p\<close>, in that order.\<close>

definition take_rows :: "nat list \<Rightarrow> data_frame \<Rightarrow> data_frame" where
  "take_rows p df =
     df\<lparr>index := map ((!) (index df)) p,
        columns := map (\<lambda>cv. (fst cv, map ((!) (snd cv)) p)) (columns df)\<rparr>"

text \<open>
  \<^verbatim>\<open>df.sort_values(by)\<close>: the rows in ascending order of the column \<open>by\<close>. Rows with
  equal keys keep their input order here; pandas' default sort does not promise that.
\<close>

definition sort_values :: "string \<Rightarrow> data_frame \<Rightarrow> error + data_frame" where
  "sort_values by df =
     (case column df by of
        None \<Rightarrow> Inl (KeyError by)
      | Some k \<Rightarrow> Inr (take_rows (sort_key ((!) k) [0..<nrows df]) df))"

definition range_index :: "nat \<Rightarrow> real list" where
  "range_index n = map real [0..<n]"

text \<open>\<^verbatim>\<open>df.reset_index(drop=True)\<close>: the index becomes 0, 1, ..., unnamed.\<close>

definition reset_index_drop :: "data_frame \<Rightarrow> data_frame" where
  "reset_index_drop df = df\<lparr>index_name := None, index := range_index (nrows df)\<rparr>"

text \<open>
  \<^verbatim>\<open>df.reset_index()\<close>: the old index becomes the first column, under the name of the
  index, or \<^verbatim>\<open>index\<close> for an unnamed index (\<^verbatim>\<open>level_0\<close> when a column \<^verbatim>\<open>index\<close>
  exists already); pandas refuses to insert a label that is there already.
\<close>

definition reset_name :: "data_frame \<Rightarrow> string" where
  "reset_name df =
     (case index_name df of
        Some nm \<Rightarrow> nm
      | None \<Rightarrow> if ''index'' \<in> set (labels df) then ''level_0'' else ''index'')"

definition reset_index :: "data_frame \<Rightarrow> error + data_frame" where
  "reset_index df =
     (let nm = reset_name df in
      if nm \<in> set (labels df)
      then Inl (ValueError (''cannot insert '' @ nm @ '', already exists''))
      else Inr (df\<lparr>index_name := None, index := range_index (nrows df),
                    columns := (nm, index df) # columns df\<rparr>))"

text \<open>\<^verbatim>\<open>df.rename(columns={old: new})\<close>.\<close>

definition rename_column :: "string \<Rightarrow> string \<Rightarrow> data_frame \<Rightarrow> data_frame" where
  "rename_column old new df =
     df\<lparr>columns := map (\<lambda>cv. (if fst cv = old then new else fst cv, snd cv)) (columns df)\<rparr>"


section \<open>The normalizer: \<^verbatim>\<open>_prepare_df\<close>\<close>

definition required_columns :: "string list" where
  "required_columns = [''open'', ''high'', ''low'', ''close'', ''volume'']"

text \<open>
  The loop over the five required labels raises at the first one that is missing.
\<close>

fun check_columns :: "string \<Rightarrow> string list \<Rightarrow> data_frame \<Rightarrow> error + data_frame" where
  "check_columns msg [] df = Inr df"
| "check_columns msg (c # cs) df =
     (if c \<notin> set (labels df) then Inl (ValueError (msg @ c)) else check_columns msg cs df)"

text \<open>
  The two agents have the same \<^verbatim>\<open>_prepare_df\<close> but for the text of the message,
  which is the parameter \<open>msg\<close>.
\<close>

definition prepare_df :: "string \<Rightarrow> data_frame \<Rightarrow> error + data_frame" where
  "prepare_df msg df =
     (case (if ''date'' \<in> set (labels df)
            then (case sort_values ''date'' df of
                    Inl e \<Rightarrow> Inl e
                  | Inr s \<Rightarrow> Inr (reset_index_drop s))
            else (case reset_index df of
                    Inl e \<Rightarrow> Inl e
                  | Inr r \<Rightarrow> Inr (rename_column ''index'' ''date'' r)))
      of Inl e \<Rightarrow> Inl e
       | Inr df' \<Rightarrow> check_columns msg required_columns df')"

definition kt_prepare_df :: "data_frame \<Rightarrow> error + data_frame" where
  "kt_prepare_df = prepare_df ''data frame missing required column: ''"

definition macd_prepare_df :: "data_frame \<Rightarrow> error + data_frame" where
  "macd_prepare_df = prepare_df ''DataFrame missing required column: ''"


section \<open>Loops that collect signals\<close>

text \<open>
  Both scans are \<^verbatim>\<open>for\<close> loops whose body either \<^verbatim>\<open>continue\<close>s, appends one
  signal to the list \<^verbatim>\<open>signals\<close>, or raises, which ends the scan.
\<close>

fun for_loop :: "('a \<Rightarrow> error + 's option) \<Rightarrow> 'a list \<Rightarrow> 's list \<Rightarrow> error + 's list" where
  "for_loop body [] signals = Inr signals"
| "for_loop body (x # xs) signals =
     (case body x of
        Inl e \<Rightarrow> Inl e
      | Inr None \<Rightarrow> for_loop body xs signals
      | Inr (Some s) \<Rightarrow> for_loop body xs (signals @ [s]))"

definition with_column ::
  "data_frame \<Rightarrow> string \<Rightarrow> (real list \<Rightarrow> error + 'a) \<Rightarrow> error + 'a" where
  "with_column df c f = (case column df c of None \<Rightarrow> Inl (KeyError c) | Some v \<Rightarrow> f v)"


section \<open>The kangaroo tail agent\<close>

datatype side = Lower | Upper

record kt_config =
  tail_type :: side
  tail_min_ratio :: real
  body_max_ratio :: real
  min_trend_days :: int
  trend_required :: bool

record tail_signal =
  ts_date :: real
  ts_type :: side
  ts_body :: real
  ts_lower_shadow :: real
  ts_upper_shadow :: real
  ts_full_range :: real
  ts_close :: real
  ts_open :: real
  ts_idx :: nat

definition eps :: real where
  "eps = 1 / 10 ^ 9"

text \<open>\<^verbatim>\<open>prices.diff().dropna()\<close>: the differences of neighbours.\<close>

fun diff_dropna :: "real list \<Rightarrow> real list" where
  "diff_dropna (x # y # zs) = (y - x) # diff_dropna (y # zs)"
| "diff_dropna _ = []"

text \<open>The mean of no values is NaN, here \<open>None\<close>; a comparison with NaN is false.\<close>

definition mean :: "real list \<Rightarrow> real option" where
  "mean xs = (if xs = [] then None else Some (sum_list xs / real (length xs)))"

definition is_downtrend :: "kt_config \<Rightarrow> real list \<Rightarrow> bool" where
  "is_downtrend cfg prices =
     (if int (length prices) < min_trend_days cfg then False
      else (case mean (diff_dropna prices) of None \<Rightarrow> False | Some m \<Rightarrow> m < 0))"

definition is_uptrend :: "kt_config \<Rightarrow> real list \<Rightarrow> bool" where
  "is_uptrend cfg prices =
     (if int (length prices) < min_trend_days cfg then False
      else (case mean (diff_dropna prices) of None \<Rightarrow> False | Some m \<Rightarrow> m > 0))"

text \<open>\<^verbatim>\<open>max(0, idx - N)\<close>, the first position of the look-back window.\<close>

definition window_start :: "int \<Rightarrow> nat \<Rightarrow> nat" where
  "window_start N idx = nat (max 0 (int idx - N))"

text \<open>\<^verbatim>\<open>series.iloc[a:b]\<close> for positions \<open>0 \<le> a\<close> and \<open>0 \<le> b\<close>.\<close>

definition iloc_slice :: "nat \<Rightarrow> nat \<Rightarrow> 'a list \<Rightarrow> 'a list" where
  "iloc_slice a b xs = drop a (take b xs)"

definition body_at :: "real list \<Rightarrow> real list \<Rightarrow> nat \<Rightarrow> real" where
  "body_at os cs idx = \<bar>cs ! idx - os ! idx\<bar>"

definition upper_shadow_at :: "real list \<Rightarrow> real list \<Rightarrow> real list \<Rightarrow> nat \<Rightarrow> real" where
  "upper_shadow_at os hs cs idx = max (hs ! idx - max (cs ! idx) (os ! idx)) 0"

definition lower_shadow_at :: "real list \<Rightarrow> real list \<Rightarrow> real list \<Rightarrow> nat \<Rightarrow> real" where
  "lower_shadow_at os ls cs idx = max (min (cs ! idx) (os ! idx) - ls ! idx) 0"

definition full_range_at :: "real list \<Rightarrow> real list \<Rightarrow> nat \<Rightarrow> real" where
  "full_range_at hs ls idx = max (hs ! idx - ls ! idx) eps"

definition avg_range_at :: "int \<Rightarrow> real list \<Rightarrow> real list \<Rightarrow> nat \<Rightarrow> real" where
  "avg_range_at N hs ls idx =
     (let recent_ranges = map (full_range_at hs ls) [window_start N idx..<idx]
      in if length recent_ranges = 0 then eps
         else sum_list recent_ranges / real (length recent_ranges))"

text \<open>The body of the loop of \<^verbatim>\<open>detect_signals\<close>, for the row at \<open>idx\<close>.\<close>

definition kt_scan_bar :: "kt_config \<Rightarrow> data_frame \<Rightarrow> nat \<Rightarrow> error + tail_signal option" where
  "kt_scan_bar cfg df idx =
     with_column df ''open'' (\<lambda>os.
     with_column df ''high'' (\<lambda>hs.
     with_column df ''low'' (\<lambda>ls.
     with_column df ''close'' (\<lambda>cs.
       let N = min_trend_days cfg;
           body = body_at os cs idx;
           upper_shadow = upper_shadow_at os hs cs idx;
           lower_shadow = lower_shadow_at os ls cs idx;
           full_range = full_range_at hs ls idx;
           avg_range = avg_range_at N hs ls idx
       in
         if full_range < 2 * avg_range then Inr None
         else if body / full_range > body_max_ratio cfg then Inr None
         else if tail_type cfg = Lower then
           (if lower_shadow < tail_min_ratio cfg * max body eps then Inr None
            else if lower_shadow / full_range < 4 / 10 then Inr None
            else if trend_required cfg
                    \<and> \<not> is_downtrend cfg (iloc_slice (window_start N idx) idx cs)
                 then Inr None
            else with_column df ''date'' (\<lambda>ds.
                   Inr (Some \<lparr>ts_date = ds ! idx, ts_type = Lower, ts_body = body,
                              ts_lower_shadow = lower_shadow, ts_upper_shadow = upper_shadow,
                              ts_full_range = full_range, ts_close = cs ! idx,
                              ts_open = os ! idx, ts_idx = idx\<rparr>)))
         else
           (if upper_shadow < tail_min_ratio cfg * max body eps then Inr None
            else if upper_shadow / full_range < 4 / 10 then Inr None
            else if trend_required cfg
                    \<and> \<not> is_uptrend cfg (iloc_slice (window_start N idx) idx cs)
                 then Inr None
            else with_column df ''date'' (\<lambda>ds.
                   Inr (Some \<lparr>ts_date = ds ! idx, ts_type = Upper, ts_body = body,
                              ts_lower_shadow = lower_shadow, ts_upper_shadow = upper_shadow,
                              ts_full_range = full_range, ts_close = cs ! idx,
                              ts_open = os ! idx, ts_idx = idx\<rparr>)))))))"

definition kt_detect_signals :: "kt_config \<Rightarrow> data_frame \<Rightarrow> error + tail_signal list" where
  "kt_detect_signals cfg df =
     (case kt_prepare_df df of
        Inl e \<Rightarrow> Inl e
      | Inr df' \<Rightarrow> for_loop (kt_scan_bar cfg df') [0..<nrows df'] [])"



section \<open>The MACD divergence agent\<close>

record macd_config =
  short_window :: int
  long_window :: int
  signal_window :: int
  min_gap_days :: int

datatype divergence = Bullish | Bearish

record div_signal =
  ds_date :: real
  ds_type :: divergence
  ds_price1 :: real
  ds_price2 :: real
  ds_macd_hist1 :: real
  ds_macd_hist2 :: real
  ds_idx :: nat

subsection \<open>\<^verbatim>\<open>_calc_macd\<close>\<close>

text \<open>
  \<^verbatim>\<open>series.ewm(span=span, adjust=False).mean()\<close>: the first value is the first
  observation and every later one is \<open>(1 - \<alpha>) * previous + \<alpha> * x\<close> with
  \<open>\<alpha> = 2 / (span + 1)\<close>; pandas raises for a span below 1.
\<close>

fun ewm_from :: "real \<Rightarrow> real \<Rightarrow> real list \<Rightarrow> real list" where
  "ewm_from \<alpha> prev [] = []"
| "ewm_from \<alpha> prev (x # xs) =
     (let y = (1 - \<alpha>) * prev + \<alpha> * x in y # ewm_from \<alpha> y xs)"

definition ewm_mean :: "int \<Rightarrow> real list \<Rightarrow> error + real list" where
  "ewm_mean span' xs =
     (if span' < 1 then Inl (ValueError ''span must satisfy: span >= 1'')
      else Inr (case xs of
                  [] \<Rightarrow> []
                | x # rest \<Rightarrow> x # ewm_from (2 / (real_of_int span' + 1)) x rest))"

definition calc_macd ::
  "macd_config \<Rightarrow> real list \<Rightarrow> error + (real list \<times> real list \<times> real list)" where
  "calc_macd cfg close =
     (case ewm_mean (short_window cfg) close of
        Inl e \<Rightarrow> Inl e
      | Inr ema_short \<Rightarrow>
     (case ewm_mean (long_window cfg) close of
        Inl e \<Rightarrow> Inl e
      | Inr ema_long \<Rightarrow>
     (let diff = map2 (-) ema_short ema_long in
      case ewm_mean (signal_window cfg) diff of
        Inl e \<Rightarrow> Inl e
      | Inr dea \<Rightarrow> Inr (diff, dea, map2 (-) diff dea))))"

subsection \<open>\<^verbatim>\<open>_find_local_extrema\<close>\<close>

text \<open>
  scipy's \<^verbatim>\<open>argrelextrema(data, comparator, order)\<close> keeps the positions whose value
  compares well with the values \<open>1, ..., order\<close> places to either side, where a
  position beyond an end is clipped to that end (\<^verbatim>\<open>mode='clip'\<close>). The agent only
  calls it with \<open>order = 3\<close>, so scipy's refusal of an order below 1 is not modelled.
\<close>

definition take_clip :: "real list \<Rightarrow> int \<Rightarrow> real" where
  "take_clip data j = data ! nat (max 0 (min (int (length data) - 1) j))"

definition boolrelextrema :: "real list \<Rightarrow> (real \<Rightarrow> real \<Rightarrow> bool) \<Rightarrow> nat \<Rightarrow> nat \<Rightarrow> bool" where
  "boolrelextrema data comparator order i =
     list_all (\<lambda>shift. comparator (data ! i) (take_clip data (int i + int shift))
                     \<and> comparator (data ! i) (take_clip data (int i - int shift)))
       [1..<order + 1]"

definition argrelextrema :: "real list \<Rightarrow> (real \<Rightarrow> real \<Rightarrow> bool) \<Rightarrow> nat \<Rightarrow> nat list" where
  "argrelextrema data comparator order =
     filter (boolrelextrema data comparator order) [0..<length data]"

definition find_local_extrema :: "real list \<Rightarrow> nat \<Rightarrow> string \<Rightarrow> nat list" where
  "find_local_extrema series order mode =
     (if mode = ''min'' then argrelextrema series (\<le>) order
      else argrelextrema series (\<ge>) order)"

subsection \<open>Dates\<close>

text \<open>
  \<^verbatim>\<open>pd.to_datetime\<close> of a number is the timestamp that many nanoseconds after the
  epoch; the result is given as that whole number of nanoseconds (a fraction is cut off).
  \<^verbatim>\<open>(date2 - date1).days\<close> is the number of whole days of the difference, rounded
  down.
\<close>

definition to_datetime :: "real \<Rightarrow> int" where
  "to_datetime x = (if x \<ge> 0 then \<lfloor>x\<rfloor> else \<lceil>x\<rceil>)"

definition ns_per_day :: int where
  "ns_per_day = 86400000000000"

definition timedelta_days :: "int \<Rightarrow> int \<Rightarrow> int" where
  "timedelta_days date1 date2 = (date2 - date1) div ns_per_day"

subsection \<open>\<^verbatim>\<open>detect_signals\<close>\<close>

text \<open>\<^verbatim>\<open>df[c] = v\<close>: the column \<open>c\<close> is replaced, or added as the last one.\<close>

definition set_column :: "string \<Rightarrow> real list \<Rightarrow> data_frame \<Rightarrow> data_frame" where
  "set_column c v df =
     (if c \<in> set (labels df)
      then df\<lparr>columns := map (\<lambda>cv. if fst cv = c then (c, v) else cv) (columns df)\<rparr>
      else df\<lparr>columns := columns df @ [(c, v)]\<rparr>)"

text \<open>The body of the first loop, for the pair of neighbours at \<open>i\<close> and \<open>i + 1\<close>.\<close>

definition bullish_pair ::
  "macd_config \<Rightarrow> data_frame \<Rightarrow> nat list \<Rightarrow> nat \<Rightarrow> error + div_signal option" where
  "bullish_pair cfg df low_idxs i =
     (let idx1 = low_idxs ! i; idx2 = low_idxs ! (i + 1) in
      with_column df ''date'' (\<lambda>ds.
        let date1 = to_datetime (ds ! idx1); date2 = to_datetime (ds ! idx2) in
        if timedelta_days date1 date2 < min_gap_days cfg then Inr None
        else
          with_column df ''close'' (\<lambda>cs.
          with_column df ''macd_hist'' (\<lambda>hs.
            let price1 = cs ! idx1; price2 = cs ! idx2;
                hist1 = hs ! idx1; hist2 = hs ! idx2
            in if price2 < price1 \<and> hist2 > hist1
               then Inr (Some \<lparr>ds_date = ds ! idx2, ds_type = Bullish,
                                ds_price1 = price1, ds_price2 = price2,
                                ds_macd_hist1 = hist1, ds_macd_hist2 = hist2,
                                ds_idx = idx2\<rparr>)
               else Inr None))))"

text \<open>The body of the second loop.\<close>

definition bearish_pair ::
  "macd_config \<Rightarrow> data_frame \<Rightarrow> nat list \<Rightarrow> nat \<Rightarrow> error + div_signal option" where
  "bearish_pair cfg df high_idxs i =
     (let idx1 = high_idxs ! i; idx2 = high_idxs ! (i + 1) in
      with_column df ''date'' (\<lambda>ds.
        let date1 = to_datetime (ds ! idx1); date2 = to_datetime (ds ! idx2) in
        if timedelta_days date1 date2 < min_gap_days cfg then Inr None
        else
          with_column df ''close'' (\<lambda>cs.
          with_column df ''macd_hist'' (\<lambda>hs.
            let price1 = cs ! idx1; price2 = cs ! idx2;
                hist1 = hs ! idx1; hist2 = hs ! idx2
            in if price2 > price1 \<and> hist2 < hist1
               then Inr (Some \<lparr>ds_date = ds ! idx2, ds_type = Bearish,
                                ds_price1 = price1, ds_price2 = price2,
                                ds_macd_hist1 = hist1, ds_macd_hist2 = hist2,
                                ds_idx = idx2\<rparr>)
               else Inr None))))"

text \<open>
  \<^verbatim>\<open>df["macd_diff"], df["macd_dea"], df["macd_hist"] = self._calc_macd(df["close"])\<close>:
  the three assignments, from left to right.
\<close>

definition assign_macd ::
  "real list \<times> real list \<times> real list \<Rightarrow> data_frame \<Rightarrow> data_frame" where
  "assign_macd t df =
     (case t of (diff, dea, hist) \<Rightarrow>
        set_column ''macd_hist'' hist
          (set_column ''macd_dea'' dea (set_column ''macd_diff'' diff df)))"

text \<open>The two loops, on the table that holds the three new columns.\<close>

definition macd_scan_pairs :: "macd_config \<Rightarrow> data_frame \<Rightarrow> error + div_signal list" where
  "macd_scan_pairs cfg df =
     with_column df ''close'' (\<lambda>close.
       let low_idxs = find_local_extrema close 3 ''min'';
           high_idxs = find_local_extrema close 3 ''max''
       in case for_loop (bullish_pair cfg df low_idxs) [0..<length low_idxs - 1] [] of
            Inl e \<Rightarrow> Inl e
          | Inr signals \<Rightarrow>
              for_loop (bearish_pair cfg df high_idxs) [0..<length high_idxs - 1] signals)"

definition macd_detect_signals :: "macd_config \<Rightarrow> data_frame \<Rightarrow> error + div_signal list" where
  "macd_detect_signals cfg df =
     (case macd_prepare_df df of
        Inl e \<Rightarrow> Inl e
      | Inr df0 \<Rightarrow>
          with_column df0 ''close'' (\<lambda>close.
            case calc_macd cfg close of
              Inl e \<Rightarrow> Inl e
            | Inr macd \<Rightarrow> macd_scan_pairs cfg (assign_macd macd df0)))"


section \<open>Auxiliary definitions\<close>

text \<open>Every column has one value per row.\<close>

definition rectangular :: "data_frame \<Rightarrow> bool" where
  "rectangular df \<longleftrightarrow> list_all (\<lambda>cv. length (snd cv) = nrows df) (columns df)"

text \<open>What one round of a loop appends to the list of signals.\<close>

definition emitted :: "('a \<Rightarrow> error + 's option) \<Rightarrow> 'a \<Rightarrow> 's list" where
  "emitted body x = (case body x of Inr (Some s) \<Rightarrow> [s] | _ \<Rightarrow> [])"

text \<open>The signal that either loop of the divergence scan appends for the pair \<open>idx1\<close>, \<open>idx2\<close>.\<close>

definition div_signal_of ::
  "divergence \<Rightarrow> real list \<Rightarrow> real list \<Rightarrow> real list \<Rightarrow> nat \<Rightarrow> nat \<Rightarrow> div_signal" where
  "div_signal_of kind ds close histogram idx1 idx2 =
     \<lparr>ds_date = ds ! idx2, ds_type = kind,
      ds_price1 = close ! idx1, ds_price2 = close ! idx2,
      ds_macd_hist1 = histogram ! idx1, ds_macd_hist2 = histogram ! idx2,
      ds_idx = idx2\<rparr>"

text \<open>The signals of one loop over the neighbours of a list of extrema.\<close>

definition pair_signals ::
  "(nat \<Rightarrow> nat \<Rightarrow> bool) \<Rightarrow> (nat \<Rightarrow> nat \<Rightarrow> div_signal) \<Rightarrow> nat list \<Rightarrow> div_signal list" where
  "pair_signals P f idxs =
     concat (map (\<lambda>k. if P (idxs ! k) (idxs ! (k + 1)) then [f (idxs ! k) (idxs ! (k + 1))] else [])
       [0..<length idxs - 1])"



section \<open>The specification's words\<close>




text \<open>
  The spec's local extremum: a position whose close is no worse than every close at most
  \<open>order\<close> places away, positions beyond the ends left out.
\<close>

definition spec_local_min :: "real list \<Rightarrow> nat \<Rightarrow> nat \<Rightarrow> bool" where
  "spec_local_min close order i \<longleftrightarrow>
     i < length close \<and>
     (\<forall>j\<in>set [0..<length close].
        int i - int order \<le> int j \<and> int j \<le> int i + int order \<longrightarrow> close ! i \<le> close ! j)"

definition spec_local_max :: "real list \<Rightarrow> nat \<Rightarrow> nat \<Rightarrow> bool" where
  "spec_local_max close order i \<longleftrightarrow>
     i < length close \<and>
     (\<forall>j\<in>set [0..<length close].
        int i - int order \<le> int j \<and> int j \<le> int i + int order \<longrightarrow> close ! i \<ge> close ! j)"

text \<open>
  The spec's divergence tests on a pair of extrema: the dates are at least
  \<open>min_gap_days\<close> days apart, price makes a lower low while the histogram makes a
  higher low (bullish), or price makes a higher high while the histogram makes a lower
  high (bearish).
\<close>

definition spec_gap :: "macd_config \<Rightarrow> real list \<Rightarrow> nat \<Rightarrow> nat \<Rightarrow> bool" where
  "spec_gap cfg ds idx1 idx2 \<longleftrightarrow>
     to_datetime (ds ! idx2) - to_datetime (ds ! idx1) \<ge> min_gap_days cfg * ns_per_day"

definition spec_bullish ::
  "macd_config \<Rightarrow> real list \<Rightarrow> real list \<Rightarrow> real list \<Rightarrow> nat \<Rightarrow> nat \<Rightarrow> bool" where
  "spec_bullish cfg ds close histogram idx1 idx2 \<longleftrightarrow>
     spec_gap cfg ds idx1 idx2 \<and> close ! idx2 < close ! idx1
     \<and> histogram ! idx2 > histogram ! idx1"

definition spec_bearish ::
  "macd_config \<Rightarrow> real list \<Rightarrow> real list \<Rightarrow> real list \<Rightarrow> nat \<Rightarrow> nat \<Rightarrow> bool" where
  "spec_bearish cfg ds close histogram idx1 idx2 \<longleftrightarrow>
     spec_gap cfg ds idx1 idx2 \<and> close ! idx2 > close ! idx1
     \<and> histogram ! idx2 < histogram ! idx1"




section \<open>The scans as programs on a store of tables\<close>

text \<open>
  In Python a table is an object and \<^verbatim>\<open>detect_signals\<close> gets a reference to it.
  To say that a scan leaves its argument alone, and that a second scan sees what the
  first one saw, the two methods are written once more over a store of tables:
  \<^verbatim>\<open>df.copy()\<close>, \<^verbatim>\<open>sort_values\<close>, \<^verbatim>\<open>reset_index\<close> and \<^verbatim>\<open>rename\<close> each make a
  new table, and \<^verbatim>\<open>df["macd_diff"] = ...\<close> writes to the table that the local name
  \<^verbatim>\<open>df\<close> refers to. Neither method assigns to an attribute of \<^verbatim>\<open>self\<close>, so the
  configuration stays a parameter.
\<close>

type_synonym ref = nat

record store =
  frames :: "ref \<Rightarrow> data_frame"
  lim :: ref

text \<open>A new table gets the next free reference.\<close>

definition new_frame :: "data_frame \<Rightarrow> store \<Rightarrow> ref \<times> store" where
  "new_frame df s = (lim s, s\<lparr>frames := (frames s)(lim s := df), lim := Suc (lim s)\<rparr>)"

definition st_prepare_df :: "string \<Rightarrow> ref \<Rightarrow> store \<Rightarrow> (error + ref) \<times> store" where
  "st_prepare_df msg a s0 =
     (let (df, s1) = new_frame (frames s0 a) s0 in
      case (if ''date'' \<in> set (labels (frames s1 df))
            then (case sort_values ''date'' (frames s1 df) of
                    Inl e \<Rightarrow> (Inl e, s1)
                  | Inr sorted_df \<Rightarrow>
                      (let (t, s2) = new_frame sorted_df s1;
                           (df', s3) = new_frame (reset_index_drop (frames s2 t)) s2
                       in (Inr df', s3)))
            else (case reset_index (frames s1 df) of
                    Inl e \<Rightarrow> (Inl e, s1)
                  | Inr r \<Rightarrow>
                      (let (t, s2) = new_frame r s1;
                           (df', s3) = new_frame (rename_column ''index'' ''date'' (frames s2 t)) s2
                       in (Inr df', s3))))
      of (Inl e, s) \<Rightarrow> (Inl e, s)
       | (Inr df', s) \<Rightarrow>
           (case check_columns msg required_columns (frames s df') of
              Inl e \<Rightarrow> (Inl e, s)
            | Inr _ \<Rightarrow> (Inr df', s)))"

definition st_kt_detect_signals ::
  "kt_config \<Rightarrow> ref \<Rightarrow> store \<Rightarrow> (error + tail_signal list) \<times> store" where
  "st_kt_detect_signals cfg a s =
     (case st_prepare_df ''data frame missing required column: '' a s of
        (Inl e, s') \<Rightarrow> (Inl e, s')
      | (Inr df, s') \<Rightarrow>
          (for_loop (kt_scan_bar cfg (frames s' df)) [0..<nrows (frames s' df)] [], s'))"

definition st_macd_detect_signals ::
  "macd_config \<Rightarrow> ref \<Rightarrow> store \<Rightarrow> (error + div_signal list) \<times> store" where
  "st_macd_detect_signals cfg a s =
     (case st_prepare_df ''DataFrame missing required column: '' a s of
        (Inl e, s') \<Rightarrow> (Inl e, s')
      | (Inr df, s') \<Rightarrow>
          (case column (frames s' df) ''close'' of
             None \<Rightarrow> (Inl (KeyError ''close''), s')
           | Some close \<Rightarrow>
               (case calc_macd cfg close of
                  Inl e \<Rightarrow> (Inl e, s')
                | Inr macd \<Rightarrow>
                    (let s'' = s'\<lparr>frames := (frames s')(df := assign_macd macd (frames s' df))\<rparr>
                     in (macd_scan_pairs cfg (frames s'' df), s'')))))"

text \<open>Every table that existed in \<open>s\<close> is the same in \<open>s'\<close>.\<close>

definition untouched :: "store \<Rightarrow> store \<Rightarrow> bool" where
  "untouched s s' \<longleftrightarrow>
     lim s \<le> lim s' \<and> list_all (\<lambda>b. frames s' b = frames s b) [0..<lim s]"


section \<open>Example inputs\<close>

text \<open>
  Four bars for the shadow scanner. The last one sits exactly on every threshold of the
  configuration: its range is twice the average range before it, its body two tenths of
  its range, its lower shadow twice its body and four tenths of its range.
\<close>

definition kt_example_cfg :: kt_config where
  "kt_example_cfg = \<lparr>tail_type = Lower, tail_min_ratio = 2, body_max_ratio = 2 / 10,
                       min_trend_days = 3, trend_required = True\<rparr>"

definition kt_example_frame :: data_frame where
  "kt_example_frame =
     \<lparr>index_name = None, index = [0, 1, 2, 3],
      columns = [(''open'', [20, 19, 18, 6]), (''high'', [22, 21, 20, 10]),
                 (''low'', [17, 16, 15, 0]), (''close'', [20, 19, 18, 4]),
                 (''volume'', [1, 1, 1, 1])]\<rparr>"


text \<open>One bar of the same shape, with nothing before it.\<close>

definition kt_single_frame :: data_frame where
  "kt_single_frame =
     \<lparr>index_name = None, index = [0],
      columns = [(''open'', [6]), (''high'', [10]), (''low'', [0]), (''close'', [4]),
                 (''volume'', [1])]\<rparr>"

definition kt_single_prepared :: data_frame where
  "kt_single_prepared =
     \<lparr>index_name = None, index = [0],
      columns = [(''date'', [0]), (''open'', [6]), (''high'', [10]), (''low'', [0]),
                 (''close'', [4]), (''volume'', [1])]\<rparr>"

text \<open>
  Twelve daily bars for the divergence scan, with the default spans and gap; the dates
  are nanoseconds since the epoch.
\<close>

definition macd_example_cfg :: macd_config where
  "macd_example_cfg =
     \<lparr>short_window = 12, long_window = 26, signal_window = 9, min_gap_days = 5\<rparr>"

definition macd_example_close :: "real list" where
  "macd_example_close = [24, 17, 9, 3, 9, 26, 11, 3, 10, 2, 28, 13]"

definition macd_example_dates :: "real list" where
  "macd_example_dates =
     [0, 86400000000000, 172800000000000, 259200000000000, 345600000000000,
      432000000000000, 518400000000000, 604800000000000, 691200000000000,
      777600000000000, 864000000000000, 950400000000000]"

definition macd_example_frame :: data_frame where
  "macd_example_frame =
     \<lparr>index_name = None, index = range_index 12,
      columns = [(''date'', macd_example_dates),
                 (''open'', macd_example_close), (''high'', macd_example_close),
                 (''low'', macd_example_close), (''close'', macd_example_close),
                 (''volume'', replicate 12 1)]\<rparr>"

text \<open>What \<^verbatim>\<open>_calc_macd\<close> makes of these closes, and the two signals of the scan.\<close>

definition macd_example_diff :: "real list" where
  "macd_example_diff =
     [0,
      - (196 / 351),
      - (200536 / 123201),
      - (126512260 / 43243551),
      - (52068971752 / 15178486401),
      - (12950345006368 / 5327648726751),
      - (5266769560834516 / 1870004703089601),
      - (2444779668591468376 / 656371650784449951),
      - (883629178450589482576 / 230386449425341932801),
      - (365241556156751766116296 / 80865643748295018413151),
      - (83017752830797675313913784 / 28383840955651551463016001),
      - (28303314254099341435345622668 / 9962728175433694563518616351)]"

definition macd_example_dea :: "real list" where
  "macd_example_dea =
     [0,
      - (196 / 1755),
      - (1277864 / 3080025),
      - (4956927556 / 5405443875),
      - (13468147757624 / 9486554000625),
      - (27003245080684096 / 16648902271096875),
      - (54371210970888333284 / 29218823485775015625),
      - (114536862524868913305736 / 51279035217535152421875),
      - (229843284551368257607503344 / 89994706806774192500390625),
      - (465372454383852192320112819976 / 157940710445888707838185546875),
      - (815526974452580187614926258621304 / 277185946832534682256015634765625),
      - (1421399425394111464615903563471498316 / 486461336691098367359307439013671875)]"

definition macd_example_hist :: "real list" where
  "macd_example_hist =
     [0,
      - (784 / 1755),
      - (3735536 / 3080025),
      - (10857104944 / 5405443875),
      - (19074959587376 / 9486554000625),
      - (13466583064215904 / 16648902271096875),
      - (27922063417150979216 / 29218823485775015625),
      - (76461549083839553569264 / 51279035217535152421875),
      - (115324363280893259023746656 / 89994706806774192500390625),
      - (247989959984803600875777805024 / 157940710445888707838185546875),
      4806731964321639627486961746304 / 277185946832534682256015634765625,
      39401659080667058593168081635560816 / 486461336691098367359307439013671875]"

definition macd_example_signals :: "div_signal list" where
  "macd_example_signals =
     [div_signal_of Bullish macd_example_dates macd_example_close macd_example_hist 3 9,
      div_signal_of Bearish macd_example_dates macd_example_close macd_example_hist 0 5]"

text \<open>
  The same bars without a \<^verbatim>\<open>date\<close> column: once under the default index, once under
  an index named \<^verbatim>\<open>date\<close> that holds the days.
\<close>

definition macd_positional_frame :: data_frame where
  "macd_positional_frame =
     \<lparr>index_name = None, index = range_index 12,
      columns = [(''open'', macd_example_close), (''high'', macd_example_close),
                 (''low'', macd_example_close), (''close'', macd_example_close),
                 (''volume'', replicate 12 1)]\<rparr>"

definition macd_indexed_frame :: data_frame where
  "macd_indexed_frame =
     \<lparr>index_name = Some ''date'', index = macd_example_dates,
      columns = [(''open'', macd_example_close), (''high'', macd_example_close),
                 (''low'', macd_example_close), (''close'', macd_example_close),
                 (''volume'', replicate 12 1)]\<rparr>"



definition unsorted_date_frame :: data_frame where
  "unsorted_date_frame =
     \<lparr>index_name = None, index = [0, 1],
      columns = [(''date'', [172800000000000, 86400000000000]),
                 (''open'', [6, 20]), (''high'', [10, 22]), (''low'', [0, 17]),
                 (''close'', [4, 20]), (''volume'', [1, 1])]\<rparr>"

definition unsorted_date_prepared :: data_frame where
  "unsorted_date_prepared =
     \<lparr>index_name = None, index = [0, 1],
      columns = [(''date'', [86400000000000, 172800000000000]),
                 (''open'', [20, 6]), (''high'', [22, 10]), (''low'', [17, 0]),
                 (''close'', [20, 4]), (''volume'', [1, 1])]\<rparr>"


text \<open>A store that holds two of the example tables.\<close>

definition example_store :: store where
  "example_store =
     \<lparr>frames = (\<lambda>r. if r = 0 then macd_example_frame else kt_example_frame), lim = 2\<rparr>"


chapter \<open>Verified properties\<close>

section \<open>Loops and tables\<close>

lemma for_loop_Inr:
  "for_loop body xs acc = Inr r \<Longrightarrow> r = acc @ concat (map (emitted body) xs)"
proof (induction xs arbitrary: acc)
  case Nil
  then show ?case by simp
next
  case (Cons x xs)
  show ?case
  proof (cases "body x")
    case (Inl e)
    with Cons.prems show ?thesis by simp
  next
    case (Inr res)
    show ?thesis
    proof (cases res)
      case None
      with Inr Cons.prems have "for_loop body xs acc = Inr r" by simp
      from Cons.IH[OF this] show ?thesis using Inr None by (simp add: emitted_def)
    next
      case (Some s)
      with Inr Cons.prems have "for_loop body xs (acc @ [s]) = Inr r" by simp
      from Cons.IH[OF this] show ?thesis using Inr Some by (simp add: emitted_def)
    qed
  qed
qed


lemma filter_concat_unique:
  assumes "distinct xs"
    and "\<And>x s. x \<in> set xs \<Longrightarrow> s \<in> set (g x) \<Longrightarrow> (P s \<longleftrightarrow> x = i)"
  shows "filter P (concat (map g xs)) = (if i \<in> set xs then g i else [])"
  using assms
proof (induction xs)
  case Nil
  then show ?case by simp
next
  case (Cons x xs)
  have tl: "filter P (concat (map g xs)) = (if i \<in> set xs then g i else [])"
    using Cons by simp
  show ?case
  proof (cases "x = i")
    case True
    then have "filter P (g x) = g i" using Cons.prems(2)[of x] by (auto intro: filter_True)
    moreover have "i \<notin> set xs" using True Cons.prems(1) by simp
    ultimately show ?thesis using tl True by simp
  next
    case False
    then have "filter P (g x) = []" using Cons.prems(2)[of x] by (auto simp: filter_empty_conv)
    then show ?thesis using tl False by simp
  qed
qed


lemma column_in_labels: "column df c = Some v \<Longrightarrow> c \<in> set (labels df)"
  unfolding column_def labels_def by (metis map_of_SomeD set_zip_leftD zip_map_fst_snd)

lemma labels_column: "c \<in> set (labels df) \<Longrightarrow> \<exists>v. column df c = Some v"
  unfolding column_def labels_def
  by (metis domD domI dom_map_of_conv_image_fst list.set_map)

lemma rectangular_column:
  "rectangular df \<Longrightarrow> column df c = Some v \<Longrightarrow> length v = nrows df"
proof -
  assume r: "rectangular df" and c: "column df c = Some v"
  from c have "(c, v) \<in> set (columns df)" unfolding column_def by (rule map_of_SomeD)
  with r show ?thesis unfolding rectangular_def list_all_iff by force
qed

lemma check_columns_Inr:
  "check_columns msg cs df = Inr df' \<longleftrightarrow> df' = df \<and> set cs \<subseteq> set (labels df)"
  by (induction cs) auto

lemma check_columns_Inl:
  "check_columns msg cs df = Inl e \<Longrightarrow> \<exists>c\<in>set cs. c \<notin> set (labels df) \<and> e = ValueError (msg @ c)"
  by (induction cs) (auto split: if_splits)

lemma nrows_take_rows: "nrows (take_rows p df) = length p"
  by (simp add: nrows_def take_rows_def)






lemma prepare_df_required:
  assumes "prepare_df msg df = Inr df'"
  shows "set required_columns \<subseteq> set (labels df')"
  using assms
  by (auto simp: prepare_df_def check_columns_Inr split: if_splits sum.splits)








lemma wf_frame_rectangular: "wf_frame df \<Longrightarrow> rectangular df"
  by (simp add: wf_frame_def rectangular_def)

section \<open>The shadow scanner emits one signal exactly where the four gates hold\<close>






section \<open>The trend test only looks at the two ends of its window\<close>


lemma kt_scan_bar_idx:
  "kt_scan_bar cfg df x = Inr (Some s) \<Longrightarrow> ts_idx s = x \<and> ts_type s = tail_type cfg"
  unfolding kt_scan_bar_def with_column_def Let_def
  by (cases "tail_type cfg") (auto split: option.splits if_splits)

lemma short_window_no_trend:
  assumes "int i < min_trend_days cfg"
  shows "\<not> is_downtrend cfg (iloc_slice (window_start (min_trend_days cfg) i) i cs)"
    and "\<not> is_uptrend cfg (iloc_slice (window_start (min_trend_days cfg) i) i cs)"
proof -
  have "length (iloc_slice (window_start (min_trend_days cfg) i) i cs) \<le> i"
    by (simp add: iloc_slice_def)
  with assms have "int (length (iloc_slice (window_start (min_trend_days cfg) i) i cs)) < min_trend_days cfg"
    by linarith
  then show "\<not> is_downtrend cfg (iloc_slice (window_start (min_trend_days cfg) i) i cs)"
    and "\<not> is_uptrend cfg (iloc_slice (window_start (min_trend_days cfg) i) i cs)"
    by (simp_all add: is_downtrend_def is_uptrend_def)
qed

lemma prepare_df_column:
  assumes "prepare_df msg df = Inr df'" and "c \<in> set required_columns"
  shows "\<exists>v. column df' c = Some v"
  using prepare_df_required[OF assms(1)] assms(2) labels_column by blast

section \<open>Too few preceding closes: the trend gate rejects the bar\<close>

text \<open>
  Claim C5. With \<open>trend_required\<close>, a row \<open>i\<close> that has fewer than
  \<open>min_trend_days\<close> rows before it is passed over: the body of the loop returns
  without a signal and without raising at \<open>i\<close>, for either side, and no signal of a
  returned list has index \<open>i\<close>.
\<close>

theorem trend_gate_fails_closed:
  assumes prep: "kt_prepare_df df = Inr df'"
    and trend: "trend_required cfg"
    and few: "int i < min_trend_days cfg"
  shows "kt_scan_bar cfg df' i = Inr None
       \<and> (\<forall>sigs. kt_detect_signals cfg df = Inr sigs \<longrightarrow> (\<forall>s\<in>set sigs. ts_idx s \<noteq> i))"
proof -
  have p: "prepare_df ''data frame missing required column: '' df = Inr df'"
    using prep by (simp add: kt_prepare_df_def)
  obtain os hs ls cs where cols:
    "column df' ''open'' = Some os" "column df' ''high'' = Some hs"
    "column df' ''low'' = Some ls" "column df' ''close'' = Some cs"
    using prepare_df_column[OF p] by (force simp: required_columns_def)
  have bar: "kt_scan_bar cfg df' i = Inr None"
    using cols trend short_window_no_trend[OF few, of cs]
    by (simp add: kt_scan_bar_def with_column_def Let_def)
  have "\<forall>s\<in>set sigs. ts_idx s \<noteq> i" if ret: "kt_detect_signals cfg df = Inr sigs" for sigs
  proof
    fix s assume s: "s \<in> set sigs"
    have "for_loop (kt_scan_bar cfg df') [0..<nrows df'] [] = Inr sigs"
      using ret prep by (simp add: kt_detect_signals_def)
    from for_loop_Inr[OF this] s obtain x where "s \<in> set (emitted (kt_scan_bar cfg df') x)"
      by auto
    then have "kt_scan_bar cfg df' x = Inr (Some s)"
      by (auto simp: emitted_def split: sum.splits option.splits)
    with kt_scan_bar_idx[OF this] bar show "ts_idx s \<noteq> i" by auto
  qed
  with bar show ?thesis by blast
qed


section \<open>Local extrema\<close>

lemma take_clip_in_range:
  "0 \<le> j \<Longrightarrow> j < int (length data) \<Longrightarrow> take_clip data j = data ! nat j"
proof -
  assume "0 \<le> j" "j < int (length data)"
  then have "max 0 (min (int (length data) - 1) j) = j" by linarith
  then show ?thesis by (simp add: take_clip_def)
qed

lemma argrelextrema_iff:
  assumes refl: "\<And>x. cmp x x"
  shows "i \<in> set (argrelextrema data cmp order) \<longleftrightarrow>
     i < length data \<and>
     (\<forall>j\<in>set [0..<length data].
        int i - int order \<le> int j \<and> int j \<le> int i + int order \<longrightarrow> cmp (data ! i) (data ! j))"
    (is "?L \<longleftrightarrow> ?R")
proof
  assume L: ?L
  then have i: "i < length data" and b: "boolrelextrema data cmp order i"
    by (auto simp: argrelextrema_def)
  have "cmp (data ! i) (data ! j)"
    if j: "j < length data" "int i - int order \<le> int j" "int j \<le> int i + int order" for j
  proof (cases j i rule: linorder_cases)
    case equal
    then show ?thesis using refl by simp
  next
    case greater
    define shift where "shift = j - i"
    have s: "shift \<in> set [1..<order + 1]" using greater j by (auto simp: shift_def)
    have "take_clip data (int i + int shift) = data ! j"
      using greater j take_clip_in_range[of "int i + int shift" data] by (simp add: shift_def)
    with b s show ?thesis by (auto simp: boolrelextrema_def list_all_iff)
  next
    case less
    define shift where "shift = i - j"
    have s: "shift \<in> set [1..<order + 1]" using less j by (auto simp: shift_def)
    have "take_clip data (int i - int shift) = data ! j"
      using less j take_clip_in_range[of "int i - int shift" data] by (simp add: shift_def)
    with b s show ?thesis by (auto simp: boolrelextrema_def list_all_iff)
  qed
  with i show ?R by auto
next
  assume R: ?R
  then have i: "i < length data" by simp
  have "cmp (data ! i) (take_clip data (int i + int shift))
      \<and> cmp (data ! i) (take_clip data (int i - int shift))"
    if s: "shift \<in> set [1..<order + 1]" for shift
  proof -
    let ?p = "nat (max 0 (min (int (length data) - 1) (int i + int shift)))"
    let ?m = "nat (max 0 (min (int (length data) - 1) (int i - int shift)))"
    have "?p < length data" "int i - int order \<le> int ?p" "int ?p \<le> int i + int order"
      using i s by auto
    moreover have "?m < length data" "int i - int order \<le> int ?m" "int ?m \<le> int i + int order"
      using i s by auto
    ultimately show ?thesis using R by (auto simp: take_clip_def)
  qed
  then have "boolrelextrema data cmp order i"
    by (simp add: boolrelextrema_def list_all_iff)
  with i show ?L by (simp add: argrelextrema_def)
qed

lemma find_local_extrema_min_iff:
  "i \<in> set (find_local_extrema close order ''min'') \<longleftrightarrow> spec_local_min close order i"
  by (simp add: find_local_extrema_def spec_local_min_def argrelextrema_iff[of "(\<le>)"])

lemma find_local_extrema_max_iff:
  "i \<in> set (find_local_extrema close order ''max'') \<longleftrightarrow> spec_local_max close order i"
  by (simp add: find_local_extrema_def spec_local_max_def argrelextrema_iff[of "(\<ge>)"])

lemma find_local_extrema_sorted:
  "sorted_wrt (<) (find_local_extrema close order mode)"
  by (simp add: find_local_extrema_def argrelextrema_def sorted_wrt_filter)

lemma find_local_extrema_less:
  "i \<in> set (find_local_extrema close order mode) \<Longrightarrow> i < length close"
  by (auto simp: find_local_extrema_def argrelextrema_def split: if_splits)

section \<open>Columns of the divergence scan\<close>

lemma int_le_div_iff:
  fixes x m D :: int
  assumes D: "0 < D"
  shows "m \<le> x div D \<longleftrightarrow> m * D \<le> x"
proof
  assume "m \<le> x div D"
  then have "m * D \<le> (x div D) * D" using D by (simp add: mult_right_mono)
  also have "\<dots> \<le> x" using D by (metis div_mult_mod_eq le_add_same_cancel1 pos_mod_sign)
  finally show "m * D \<le> x" .
next
  assume le: "m * D \<le> x"
  show "m \<le> x div D"
  proof (rule ccontr)
    assume "\<not> m \<le> x div D"
    then have "x div D + 1 \<le> m" by simp
    then have "(x div D + 1) * D \<le> m * D" using D by (simp add: mult_right_mono)
    moreover have "x < (x div D + 1) * D"
    proof -
      have "(x div D) * D + x mod D = x" by simp
      moreover have "x mod D < D" using D by simp
      ultimately have "x < (x div D) * D + D" by linarith
      then show ?thesis by (simp add: algebra_simps)
    qed
    ultimately show False using le by linarith
  qed
qed

lemma map_of_replace_same:
  "c \<in> fst ` set xs \<Longrightarrow> map_of (map (\<lambda>cv. if fst cv = c then (c, v) else cv) xs) c = Some v"
  by (induction xs) auto

lemma map_of_replace_other:
  "c' \<noteq> c \<Longrightarrow> map_of (map (\<lambda>cv. if fst cv = c then (c, v) else cv) xs) c' = map_of xs c'"
  by (induction xs) auto

lemma column_set_column_same: "column (set_column c v df) c = Some v"
  by (auto simp: column_def set_column_def labels_def map_of_replace_same map_add_Some_iff
      simp flip: map_of_eq_None_iff)

lemma column_set_column_other:
  "c' \<noteq> c \<Longrightarrow> column (set_column c v df) c' = column df c'"
  by (auto simp: column_def set_column_def labels_def map_of_replace_other map_add_def
      split: option.splits)

lemma for_loop_pure:
  assumes "\<And>x. x \<in> set xs \<Longrightarrow> body x = (if P x then Inr (Some (f x)) else Inr None)"
  shows "for_loop body xs acc = Inr (acc @ concat (map (\<lambda>x. if P x then [f x] else []) xs))"
  using assms by (induction xs arbitrary: acc) auto

lemma gap_gate:
  "\<not> timedelta_days (to_datetime (ds ! idx1)) (to_datetime (ds ! idx2)) < min_gap_days cfg
   \<longleftrightarrow> spec_gap cfg ds idx1 idx2"
  by (simp add: timedelta_days_def spec_gap_def not_less int_le_div_iff ns_per_day_def)

lemma bullish_pair_eq:
  assumes "column df ''date'' = Some ds" "column df ''close'' = Some cs"
    "column df ''macd_hist'' = Some hs"
  shows "bullish_pair cfg df idxs k =
     (if spec_bullish cfg ds cs hs (idxs ! k) (idxs ! (k + 1))
      then Inr (Some (div_signal_of Bullish ds cs hs (idxs ! k) (idxs ! (k + 1))))
      else Inr None)"
  using assms gap_gate[of ds "idxs ! k" "idxs ! (k + 1)" cfg]
  by (auto simp: bullish_pair_def with_column_def Let_def spec_bullish_def div_signal_of_def)

lemma bearish_pair_eq:
  assumes "column df ''date'' = Some ds" "column df ''close'' = Some cs"
    "column df ''macd_hist'' = Some hs"
  shows "bearish_pair cfg df idxs k =
     (if spec_bearish cfg ds cs hs (idxs ! k) (idxs ! (k + 1))
      then Inr (Some (div_signal_of Bearish ds cs hs (idxs ! k) (idxs ! (k + 1))))
      else Inr None)"
  using assms gap_gate[of ds "idxs ! k" "idxs ! (k + 1)" cfg]
  by (auto simp: bearish_pair_def with_column_def Let_def spec_bearish_def div_signal_of_def)

lemma assign_macd_columns:
  "column (assign_macd (diff, dea, hist) df) ''macd_hist'' = Some hist"
  "column (assign_macd (diff, dea, hist) df) ''close'' = column df ''close''"
  "column (assign_macd (diff, dea, hist) df) ''date'' = column df ''date''"
  by (simp_all add: assign_macd_def column_set_column_same column_set_column_other)

lemma macd_detect_signals_eq:
  assumes prep: "macd_prepare_df df = Inr df'"
    and cols: "column df' ''close'' = Some cs" "column df' ''date'' = Some ds"
    and macd: "calc_macd cfg cs = Inr (diff, dea, hist)"
  shows "macd_detect_signals cfg df =
     Inr (pair_signals (spec_bullish cfg ds cs hist) (div_signal_of Bullish ds cs hist)
            (find_local_extrema cs 3 ''min'')
          @ pair_signals (spec_bearish cfg ds cs hist) (div_signal_of Bearish ds cs hist)
            (find_local_extrema cs 3 ''max''))"
proof -
  let ?df1 = "assign_macd (diff, dea, hist) df'"
  let ?lows = "find_local_extrema cs 3 ''min''"
  let ?highs = "find_local_extrema cs 3 ''max''"
  have c1: "column ?df1 ''date'' = Some ds" "column ?df1 ''close'' = Some cs"
    "column ?df1 ''macd_hist'' = Some hist"
    using cols by (simp_all add: assign_macd_columns)
  have bull: "for_loop (bullish_pair cfg ?df1 ?lows) [0..<length ?lows - 1] [] =
      Inr ([] @ pair_signals (spec_bullish cfg ds cs hist) (div_signal_of Bullish ds cs hist) ?lows)"
    unfolding pair_signals_def
    by (rule for_loop_pure) (rule bullish_pair_eq[OF c1])
  have bear: "for_loop (bearish_pair cfg ?df1 ?highs) [0..<length ?highs - 1] acc =
      Inr (acc @ pair_signals (spec_bearish cfg ds cs hist) (div_signal_of Bearish ds cs hist) ?highs)"
    for acc
    unfolding pair_signals_def
    by (rule for_loop_pure) (rule bearish_pair_eq[OF c1])
  show ?thesis
    using prep cols(1) macd c1(2) bull bear
    by (simp add: macd_detect_signals_def macd_scan_pairs_def with_column_def Let_def)
qed

lemma pair_signals_filter_idx:
  assumes d: "distinct idxs" and i: "i + 1 < length idxs"
    and key: "\<And>a b. ds_idx (f a b) = b"
  shows "filter (\<lambda>s. ds_idx s = idxs ! (i + 1)) (pair_signals P f idxs) =
     (if P (idxs ! i) (idxs ! (i + 1)) then [f (idxs ! i) (idxs ! (i + 1))] else [])"
proof -
  let ?g = "\<lambda>k. if P (idxs ! k) (idxs ! (k + 1)) then [f (idxs ! k) (idxs ! (k + 1))] else []"
  have "filter (\<lambda>s. ds_idx s = idxs ! (i + 1)) (concat (map ?g [0..<length idxs - 1])) =
     (if i \<in> set [0..<length idxs - 1] then ?g i else [])"
  proof (rule filter_concat_unique)
    show "distinct [0..<length idxs - 1]" by simp
  next
    fix k s assume k: "k \<in> set [0..<length idxs - 1]" and s: "s \<in> set (?g k)"
    from s have "ds_idx s = idxs ! (k + 1)" by (auto simp: key split: if_splits)
    moreover have "idxs ! (k + 1) = idxs ! (i + 1) \<longleftrightarrow> k = i"
      using d i k by (auto simp: nth_eq_iff_index_eq)
    ultimately show "(ds_idx s = idxs ! (i + 1)) = (k = i)" by simp
  qed
  moreover have "i \<in> set [0..<length idxs - 1]" using i by auto
  ultimately show ?thesis by (simp only: pair_signals_def if_True)
qed

lemma pair_signals_type:
  assumes "\<And>a b. ds_type (f a b) = kind"
  shows "\<forall>s\<in>set (pair_signals P f idxs). ds_type s = kind"
  using assms by (auto simp: pair_signals_def split: if_splits)

lemma pair_signals_member:
  "s \<in> set (pair_signals P f idxs) \<Longrightarrow>
     \<exists>k. k + 1 < length idxs \<and> P (idxs ! k) (idxs ! (k + 1)) \<and> s = f (idxs ! k) (idxs ! (k + 1))"
proof -
  assume "s \<in> set (pair_signals P f idxs)"
  then obtain k where k: "k < length idxs - 1"
    and s: "s \<in> set (if P (idxs ! k) (idxs ! (k + 1)) then [f (idxs ! k) (idxs ! (k + 1))] else [])"
    by (auto simp: pair_signals_def)
  from k have "k + 1 < length idxs" by simp
  moreover from s have "P (idxs ! k) (idxs ! (k + 1)) \<and> s = f (idxs ! k) (idxs ! (k + 1))"
    by (auto split: if_splits)
  ultimately show ?thesis by blast
qed

lemma find_local_extrema_distinct: "distinct (find_local_extrema close order mode)"
  using find_local_extrema_sorted[of close order mode] by (simp add: strict_sorted_iff)

lemma div_signal_of_simps:
  "ds_idx (div_signal_of kind ds cs hs a b) = b"
  "ds_type (div_signal_of kind ds cs hs a b) = kind"
  by (simp_all add: div_signal_of_def)

lemma filter_kind_idx:
  assumes "\<forall>s\<in>set xs. ds_type s = kind" and "\<forall>s\<in>set ys. ds_type s \<noteq> kind"
  shows "filter (\<lambda>s. ds_type s = kind \<and> ds_idx s = j) (xs @ ys) = filter (\<lambda>s. ds_idx s = j) xs"
    and "filter (\<lambda>s. ds_type s = kind \<and> ds_idx s = j) (ys @ xs) = filter (\<lambda>s. ds_idx s = j) xs"
proof -
  have a: "filter (\<lambda>s. ds_type s = kind \<and> ds_idx s = j) xs = filter (\<lambda>s. ds_idx s = j) xs"
    using assms(1) by (intro filter_cong) auto
  have b: "filter (\<lambda>s. ds_type s = kind \<and> ds_idx s = j) ys = []"
    using assms(2) by (auto simp: filter_empty_conv)
  show "filter (\<lambda>s. ds_type s = kind \<and> ds_idx s = j) (xs @ ys) = filter (\<lambda>s. ds_idx s = j) xs"
    and "filter (\<lambda>s. ds_type s = kind \<and> ds_idx s = j) (ys @ xs) = filter (\<lambda>s. ds_idx s = j) xs"
    using a b by simp_all
qed

section \<open>A divergence signal for exactly the pairs that pass the three tests\<close>

text \<open>
  Claim C2. Let the prepared table have distinct labels, a \<^verbatim>\<open>date\<close> column and
  valid spans. Then the divergence scan returns, and for every pair of neighbours
  \<open>idx1\<close>, \<open>idx2\<close> in the list of detected local minima of the closes, the returned
  list holds one bullish signal at \<open>idx2\<close> if the dates are at least
  \<open>min_gap_days\<close> days apart, \<open>close[idx2] < close[idx1]\<close> and
  \<open>histogram[idx2] > histogram[idx1]\<close>, and none otherwise; likewise for bearish
  signals over neighbours in the list of local maxima, with the two comparisons turned
  round.
\<close>

theorem divergence_signal_iff:
  assumes wf: "wf_frame df'"
    and prep: "macd_prepare_df df = Inr df'"
    and cols: "column df' ''close'' = Some cs" "column df' ''date'' = Some ds"
    and macd: "calc_macd cfg cs = Inr (diff, dea, hist)"
  shows "\<exists>sigs. macd_detect_signals cfg df = Inr sigs
     \<and> (\<forall>i. i + 1 < length (find_local_extrema cs 3 ''min'') \<longrightarrow>
          (let idx1 = find_local_extrema cs 3 ''min'' ! i;
               idx2 = find_local_extrema cs 3 ''min'' ! (i + 1)
           in length (filter (\<lambda>s. ds_type s = Bullish \<and> ds_idx s = idx2) sigs)
                = (if spec_bullish cfg ds cs hist idx1 idx2 then 1 else 0)))
     \<and> (\<forall>i. i + 1 < length (find_local_extrema cs 3 ''max'') \<longrightarrow>
          (let idx1 = find_local_extrema cs 3 ''max'' ! i;
               idx2 = find_local_extrema cs 3 ''max'' ! (i + 1)
           in length (filter (\<lambda>s. ds_type s = Bearish \<and> ds_idx s = idx2) sigs)
                = (if spec_bearish cfg ds cs hist idx1 idx2 then 1 else 0)))"
proof -
  let ?lows = "find_local_extrema cs 3 ''min''"
  let ?highs = "find_local_extrema cs 3 ''max''"
  let ?B = "pair_signals (spec_bullish cfg ds cs hist) (div_signal_of Bullish ds cs hist) ?lows"
  let ?R = "pair_signals (spec_bearish cfg ds cs hist) (div_signal_of Bearish ds cs hist) ?highs"
  have ret: "macd_detect_signals cfg df = Inr (?B @ ?R)"
    by (rule macd_detect_signals_eq[OF prep cols macd])
  have tB: "\<forall>s\<in>set ?B. ds_type s = Bullish" and tR: "\<forall>s\<in>set ?R. ds_type s = Bearish"
    by (rule pair_signals_type, simp add: div_signal_of_simps)+
  have bull: "length (filter (\<lambda>s. ds_type s = Bullish \<and> ds_idx s = ?lows ! (i + 1)) (?B @ ?R))
      = (if spec_bullish cfg ds cs hist (?lows ! i) (?lows ! (i + 1)) then 1 else 0)"
    if "i + 1 < length ?lows" for i
  proof -
    have "filter (\<lambda>s. ds_type s = Bullish \<and> ds_idx s = ?lows ! (i + 1)) (?B @ ?R)
        = filter (\<lambda>s. ds_idx s = ?lows ! (i + 1)) ?B"
      using tB tR by (intro filter_kind_idx(1)) auto
    also have "\<dots> = (if spec_bullish cfg ds cs hist (?lows ! i) (?lows ! (i + 1))
        then [div_signal_of Bullish ds cs hist (?lows ! i) (?lows ! (i + 1))] else [])"
      by (rule pair_signals_filter_idx[OF find_local_extrema_distinct that])
         (simp add: div_signal_of_simps)
    finally show ?thesis by simp
  qed
  have bear: "length (filter (\<lambda>s. ds_type s = Bearish \<and> ds_idx s = ?highs ! (i + 1)) (?B @ ?R))
      = (if spec_bearish cfg ds cs hist (?highs ! i) (?highs ! (i + 1)) then 1 else 0)"
    if "i + 1 < length ?highs" for i
  proof -
    have "filter (\<lambda>s. ds_type s = Bearish \<and> ds_idx s = ?highs ! (i + 1)) (?B @ ?R)
        = filter (\<lambda>s. ds_idx s = ?highs ! (i + 1)) ?R"
      using tB tR by (intro filter_kind_idx(2)) auto
    also have "\<dots> = (if spec_bearish cfg ds cs hist (?highs ! i) (?highs ! (i + 1))
        then [div_signal_of Bearish ds cs hist (?highs ! i) (?highs ! (i + 1))] else [])"
      by (rule pair_signals_filter_idx[OF find_local_extrema_distinct that])
         (simp add: div_signal_of_simps)
    finally show ?thesis by simp
  qed
  from ret bull bear show ?thesis by (simp add: Let_def)
qed

section \<open>Divergence signals pair detected extrema\<close>

text \<open>
  Claim C7. Under the same conditions, every bullish signal of the returned list is the
  signal of two neighbours in the list of detected local minima of the closes, so its
  index and the index it is paired with are both local minima in the spec's sense (no
  close within three places is lower); every bearish signal is the signal of two
  neighbours in the list of local maxima.
\<close>

theorem divergence_indices_are_extrema:
  assumes wf: "wf_frame df'"
    and prep: "macd_prepare_df df = Inr df'"
    and cols: "column df' ''close'' = Some cs" "column df' ''date'' = Some ds"
    and macd: "calc_macd cfg cs = Inr (diff, dea, hist)"
  shows "\<exists>sigs. macd_detect_signals cfg df = Inr sigs
     \<and> (\<forall>s\<in>set sigs.
          (ds_type s = Bullish \<longrightarrow>
             (\<exists>k. k + 1 < length (find_local_extrema cs 3 ''min'')
                \<and> s = div_signal_of Bullish ds cs hist
                      (find_local_extrema cs 3 ''min'' ! k)
                      (find_local_extrema cs 3 ''min'' ! (k + 1))
                \<and> spec_local_min cs 3 (find_local_extrema cs 3 ''min'' ! k)
                \<and> spec_local_min cs 3 (ds_idx s)))
        \<and> (ds_type s = Bearish \<longrightarrow>
             (\<exists>k. k + 1 < length (find_local_extrema cs 3 ''max'')
                \<and> s = div_signal_of Bearish ds cs hist
                      (find_local_extrema cs 3 ''max'' ! k)
                      (find_local_extrema cs 3 ''max'' ! (k + 1))
                \<and> spec_local_max cs 3 (find_local_extrema cs 3 ''max'' ! k)
                \<and> spec_local_max cs 3 (ds_idx s))))"
proof -
  let ?lows = "find_local_extrema cs 3 ''min''"
  let ?highs = "find_local_extrema cs 3 ''max''"
  let ?B = "pair_signals (spec_bullish cfg ds cs hist) (div_signal_of Bullish ds cs hist) ?lows"
  let ?R = "pair_signals (spec_bearish cfg ds cs hist) (div_signal_of Bearish ds cs hist) ?highs"
  have ret: "macd_detect_signals cfg df = Inr (?B @ ?R)"
    by (rule macd_detect_signals_eq[OF prep cols macd])
  have tB: "\<forall>s\<in>set ?B. ds_type s = Bullish" and tR: "\<forall>s\<in>set ?R. ds_type s = Bearish"
    by (rule pair_signals_type, simp add: div_signal_of_simps)+
  have bull: "\<exists>k. k + 1 < length ?lows
        \<and> s = div_signal_of Bullish ds cs hist (?lows ! k) (?lows ! (k + 1))
        \<and> spec_local_min cs 3 (?lows ! k) \<and> spec_local_min cs 3 (ds_idx s)"
    if "s \<in> set ?B" for s
  proof -
    from pair_signals_member[OF that] obtain k where k: "k + 1 < length ?lows"
      and s: "s = div_signal_of Bullish ds cs hist (?lows ! k) (?lows ! (k + 1))" by blast
    from k have "?lows ! k \<in> set ?lows" "?lows ! (k + 1) \<in> set ?lows" by simp_all
    then have "spec_local_min cs 3 (?lows ! k)" "spec_local_min cs 3 (?lows ! (k + 1))"
      by (simp_all only: find_local_extrema_min_iff)
    with k s show ?thesis by (auto simp: div_signal_of_simps)
  qed
  have bear: "\<exists>k. k + 1 < length ?highs
        \<and> s = div_signal_of Bearish ds cs hist (?highs ! k) (?highs ! (k + 1))
        \<and> spec_local_max cs 3 (?highs ! k) \<and> spec_local_max cs 3 (ds_idx s)"
    if "s \<in> set ?R" for s
  proof -
    from pair_signals_member[OF that] obtain k where k: "k + 1 < length ?highs"
      and s: "s = div_signal_of Bearish ds cs hist (?highs ! k) (?highs ! (k + 1))" by blast
    from k have "?highs ! k \<in> set ?highs" "?highs ! (k + 1) \<in> set ?highs" by simp_all
    then have "spec_local_max cs 3 (?highs ! k)" "spec_local_max cs 3 (?highs ! (k + 1))"
      by (simp_all only: find_local_extrema_max_iff)
    with k s show ?thesis by (auto simp: div_signal_of_simps)
  qed
  have "(ds_type s = Bullish \<longrightarrow> s \<in> set ?B) \<and> (ds_type s = Bearish \<longrightarrow> s \<in> set ?R)"
    if "s \<in> set (?B @ ?R)" for s
    using that tB tR by auto
  with bull bear ret show ?thesis by (intro exI[of _ "?B @ ?R"]) blast
qed


lemma length_ewm_from: "length (ewm_from \<alpha> prev xs) = length xs"
  by (induction xs arbitrary: prev) (simp_all add: Let_def)

lemma ewm_mean_Inr:
  assumes "ewm_mean sp xs = Inr ys"
  shows "length ys = length xs" and "xs \<noteq> [] \<Longrightarrow> ys ! 0 = xs ! 0"
  using assms
  by (auto simp: ewm_mean_def length_ewm_from split: if_splits list.splits)

lemma ewm_mean_total: "1 \<le> sp \<Longrightarrow> \<exists>ys. ewm_mean sp xs = Inr ys"
  by (simp add: ewm_mean_def)

section \<open>The histogram starts at zero\<close>

text \<open>
  Claim C6. For a non-empty series of closes, whatever \<^verbatim>\<open>_calc_macd\<close> returns has
  three series as long as the closes, with \<open>diff[0] = 0\<close>, the signal line equal to
  \<open>diff[0]\<close> at 0 and so the histogram 0 at 0: both averages and the signal line start at
  their first input. It returns whenever the three spans are at least 1.
\<close>

theorem histogram_starts_at_zero:
  assumes ne: "close \<noteq> []"
  shows "(1 \<le> short_window cfg \<and> 1 \<le> long_window cfg \<and> 1 \<le> signal_window cfg
          \<longrightarrow> (\<exists>diff dea hist. calc_macd cfg close = Inr (diff, dea, hist)))
       \<and> (\<forall>diff dea hist. calc_macd cfg close = Inr (diff, dea, hist) \<longrightarrow>
             length diff = length close \<and> length dea = length close
             \<and> length hist = length close
             \<and> diff ! 0 = 0 \<and> dea ! 0 = diff ! 0 \<and> hist ! 0 = 0)"
proof (intro conjI impI allI)
  assume sp: "1 \<le> short_window cfg \<and> 1 \<le> long_window cfg \<and> 1 \<le> signal_window cfg"
  obtain es where es: "ewm_mean (short_window cfg) close = Inr es"
    using sp ewm_mean_total by blast
  obtain el where el: "ewm_mean (long_window cfg) close = Inr el"
    using sp ewm_mean_total by blast
  obtain dea where "ewm_mean (signal_window cfg) (map2 (-) es el) = Inr dea"
    using sp ewm_mean_total by blast
  with es el show "\<exists>diff dea hist. calc_macd cfg close = Inr (diff, dea, hist)"
    by (simp add: calc_macd_def Let_def)
next
  fix diff dea hist
  assume ret: "calc_macd cfg close = Inr (diff, dea, hist)"
  then obtain es el where es: "ewm_mean (short_window cfg) close = Inr es"
    and el: "ewm_mean (long_window cfg) close = Inr el"
    and diff: "diff = map2 (-) es el"
    and dea: "ewm_mean (signal_window cfg) diff = Inr dea"
    and hist: "hist = map2 (-) diff dea"
    by (auto simp: calc_macd_def Let_def split: sum.splits)
  have les: "length es = length close" and lel: "length el = length close"
    using ewm_mean_Inr(1)[OF es] ewm_mean_Inr(1)[OF el] by simp_all
  have es0: "es ! 0 = close ! 0" and el0: "el ! 0 = close ! 0"
    using ewm_mean_Inr(2)[OF es ne] ewm_mean_Inr(2)[OF el ne] by simp_all
  show ldiff: "length diff = length close" using les lel diff by simp
  show ldea: "length dea = length close" using ewm_mean_Inr(1)[OF dea] ldiff by simp
  show "length hist = length close" using hist ldiff ldea by simp
  have pos: "0 < length close" using ne by simp
  show d0: "diff ! 0 = 0" using diff les lel es0 el0 pos by simp
  have "diff \<noteq> []" using ldiff ne by auto
  then show a0: "dea ! 0 = diff ! 0" using ewm_mean_Inr(2)[OF dea] by simp
  show "hist ! 0 = 0" using hist ldiff ldea pos a0 by simp
qed

lemma sorted_concat_emitted:
  assumes "sorted_wrt (\<lambda>a b. f a < (f b :: nat)) xs"
    and "\<And>x s. x \<in> set xs \<Longrightarrow> s \<in> set (g x) \<Longrightarrow> key s = f x"
    and "\<And>x. x \<in> set xs \<Longrightarrow> length (g x) \<le> 1"
  shows "sorted_wrt (<) (map key (concat (map g xs)))"
  using assms
proof (induction xs)
  case Nil
  then show ?case by simp
next
  case (Cons x xs)
  have tl: "sorted_wrt (<) (map key (concat (map g xs)))"
    using Cons by simp
  have hd: "sorted_wrt (<) (map key (g x))"
    using Cons.prems(3)[of x] by (cases "g x") auto
  have cross: "\<forall>a\<in>set (map key (g x)). \<forall>b\<in>set (map key (concat (map g xs))). a < b"
  proof (intro ballI)
    fix a b assume "a \<in> set (map key (g x))" "b \<in> set (map key (concat (map g xs)))"
    then obtain s t y where s: "s \<in> set (g x)" "a = key s"
      and t: "y \<in> set xs" "t \<in> set (g y)" "b = key t" by auto
    have "f x < f y" using Cons.prems(1) t(1) by simp
    moreover have "key s = f x" using Cons.prems(2)[of x s] s(1) by simp
    moreover have "key t = f y" using Cons.prems(2)[of y t] t by simp
    ultimately show "a < b" using s(2) t(3) by simp
  qed
  have "map key (concat (map g (x # xs))) = map key (g x) @ map key (concat (map g xs))"
    by simp
  then show ?case using tl hd cross by (simp only: sorted_wrt_append)
qed

lemma length_emitted: "length (emitted body x) \<le> 1"
  by (simp add: emitted_def split: sum.splits option.splits)

lemma emitted_Some: "s \<in> set (emitted body x) \<Longrightarrow> body x = Inr (Some s)"
  by (auto simp: emitted_def split: sum.splits option.splits)

lemma bullish_pair_Some:
  "bullish_pair cfg df idxs k = Inr (Some s) \<Longrightarrow> ds_idx s = idxs ! (k + 1) \<and> ds_type s = Bullish"
  by (auto simp: bullish_pair_def with_column_def Let_def split: option.splits if_splits)

lemma bearish_pair_Some:
  "bearish_pair cfg df idxs k = Inr (Some s) \<Longrightarrow> ds_idx s = idxs ! (k + 1) \<and> ds_type s = Bearish"
  by (auto simp: bearish_pair_def with_column_def Let_def split: option.splits if_splits)

lemma sorted_wrt_neighbours:
  assumes "sorted_wrt (<) (idxs :: nat list)"
  shows "sorted_wrt (\<lambda>a b. idxs ! (a + 1) < idxs ! (b + 1)) [0..<length idxs - 1]"
  using assms by (auto simp: sorted_wrt_iff_nth_less)

lemma macd_detect_signals_Inr:
  assumes "macd_detect_signals cfg df = Inr sigs"
  obtains df1 lows highs where
    "sorted_wrt (<) lows" "sorted_wrt (<) highs"
    "sigs = concat (map (emitted (bullish_pair cfg df1 lows)) [0..<length lows - 1])
          @ concat (map (emitted (bearish_pair cfg df1 highs)) [0..<length highs - 1])"
proof -
  from assms obtain df0 close macd close1 signals where
    l1: "for_loop (bullish_pair cfg (assign_macd macd df0) (find_local_extrema close1 3 ''min''))
          [0..<length (find_local_extrema close1 3 ''min'') - 1] [] = Inr signals"
    and l2: "for_loop (bearish_pair cfg (assign_macd macd df0) (find_local_extrema close1 3 ''max''))
          [0..<length (find_local_extrema close1 3 ''max'') - 1] signals = Inr sigs"
    by (auto simp: macd_detect_signals_def macd_scan_pairs_def with_column_def Let_def
        split: sum.splits option.splits)
  from for_loop_Inr[OF l1] for_loop_Inr[OF l2]
  have "sigs = concat (map (emitted (bullish_pair cfg (assign_macd macd df0)
                  (find_local_extrema close1 3 ''min'')))
                [0..<length (find_local_extrema close1 3 ''min'') - 1])
          @ concat (map (emitted (bearish_pair cfg (assign_macd macd df0)
                  (find_local_extrema close1 3 ''max'')))
                [0..<length (find_local_extrema close1 3 ''max'') - 1])"
    by simp
  then show thesis
    using that find_local_extrema_sorted by blast
qed

section \<open>The order of the returned signals\<close>

text \<open>
  Claim C4, as amended. The list that the shadow scan returns is strictly ascending in
  its bar indices. The list that the divergence scan returns is made of its bullish
  signals, strictly ascending in their indices, followed by its bearish signals,
  strictly ascending in theirs; the two runs are not merged.
\<close>

theorem signals_ascending_within_each_loop:
  "(\<forall>sigs. kt_detect_signals kcfg kdf = Inr sigs \<longrightarrow> sorted_wrt (<) (map ts_idx sigs))
   \<and> (\<forall>sigs. macd_detect_signals mcfg df = Inr sigs \<longrightarrow>
          sorted_wrt (<) (map ds_idx (filter (\<lambda>s. ds_type s = Bullish) sigs))
        \<and> sorted_wrt (<) (map ds_idx (filter (\<lambda>s. ds_type s = Bearish) sigs))
        \<and> sigs = filter (\<lambda>s. ds_type s = Bullish) sigs @ filter (\<lambda>s. ds_type s = Bearish) sigs)"
proof (intro conjI allI impI)
  fix sigs assume ret: "kt_detect_signals kcfg kdf = Inr sigs"
  then obtain df' where "for_loop (kt_scan_bar kcfg df') [0..<nrows df'] [] = Inr sigs"
    by (auto simp: kt_detect_signals_def split: sum.splits)
  from for_loop_Inr[OF this]
  have sigs: "sigs = concat (map (emitted (kt_scan_bar kcfg df')) [0..<nrows df'])" by simp
  show "sorted_wrt (<) (map ts_idx sigs)"
    unfolding sigs
  proof (rule sorted_concat_emitted[where f = "\<lambda>x. x"])
    show "sorted_wrt (<) [0..<nrows df']" by simp
  next
    fix x s assume "s \<in> set (emitted (kt_scan_bar kcfg df') x)"
    then have "kt_scan_bar kcfg df' x = Inr (Some s)" by (rule emitted_Some)
    then show "ts_idx s = x" by (simp add: kt_scan_bar_idx)
  next
    fix x show "length (emitted (kt_scan_bar kcfg df') x) \<le> 1" by (rule length_emitted)
  qed
next
  fix sigs assume ret: "macd_detect_signals mcfg df = Inr sigs"
  from macd_detect_signals_Inr[OF ret] obtain df1 lows highs where
    lows: "sorted_wrt (<) lows" and highs: "sorted_wrt (<) highs"
    and sigs: "sigs = concat (map (emitted (bullish_pair mcfg df1 lows)) [0..<length lows - 1])
          @ concat (map (emitted (bearish_pair mcfg df1 highs)) [0..<length highs - 1])"
    by blast
  let ?B = "concat (map (emitted (bullish_pair mcfg df1 lows)) [0..<length lows - 1])"
  let ?R = "concat (map (emitted (bearish_pair mcfg df1 highs)) [0..<length highs - 1])"
  have tB: "\<forall>s\<in>set ?B. ds_type s = Bullish"
  proof
    fix s assume "s \<in> set ?B"
    then obtain k where "s \<in> set (emitted (bullish_pair mcfg df1 lows) k)" by auto
    then have "bullish_pair mcfg df1 lows k = Inr (Some s)" by (rule emitted_Some)
    then show "ds_type s = Bullish" by (simp add: bullish_pair_Some)
  qed
  have tR: "\<forall>s\<in>set ?R. ds_type s = Bearish"
  proof
    fix s assume "s \<in> set ?R"
    then obtain k where "s \<in> set (emitted (bearish_pair mcfg df1 highs) k)" by auto
    then have "bearish_pair mcfg df1 highs k = Inr (Some s)" by (rule emitted_Some)
    then show "ds_type s = Bearish" by (simp add: bearish_pair_Some)
  qed
  have "filter (\<lambda>s. ds_type s = Bullish) ?B = ?B" "filter (\<lambda>s. ds_type s = Bullish) ?R = []"
    using tB tR by (simp_all only: filter_True filter_empty_conv) auto
  then have fB: "filter (\<lambda>s. ds_type s = Bullish) sigs = ?B"
    unfolding sigs by (simp only: filter_append append_Nil2)
  have "filter (\<lambda>s. ds_type s = Bearish) ?B = []" "filter (\<lambda>s. ds_type s = Bearish) ?R = ?R"
    using tB tR by (simp_all only: filter_True filter_empty_conv) auto
  then have fR: "filter (\<lambda>s. ds_type s = Bearish) sigs = ?R"
    unfolding sigs by (simp only: filter_append append_Nil)
  have sB: "sorted_wrt (<) (map ds_idx ?B)"
  proof (rule sorted_concat_emitted[where f = "\<lambda>k. lows ! (k + 1)"])
    show "sorted_wrt (\<lambda>a b. lows ! (a + 1) < lows ! (b + 1)) [0..<length lows - 1]"
      by (rule sorted_wrt_neighbours[OF lows])
  next
    fix x s assume "s \<in> set (emitted (bullish_pair mcfg df1 lows) x)"
    then have "bullish_pair mcfg df1 lows x = Inr (Some s)" by (rule emitted_Some)
    then show "ds_idx s = lows ! (x + 1)" by (simp add: bullish_pair_Some)
  next
    fix x show "length (emitted (bullish_pair mcfg df1 lows) x) \<le> 1" by (rule length_emitted)
  qed
  have sR: "sorted_wrt (<) (map ds_idx ?R)"
  proof (rule sorted_concat_emitted[where f = "\<lambda>k. highs ! (k + 1)"])
    show "sorted_wrt (\<lambda>a b. highs ! (a + 1) < highs ! (b + 1)) [0..<length highs - 1]"
      by (rule sorted_wrt_neighbours[OF highs])
  next
    fix x s assume "s \<in> set (emitted (bearish_pair mcfg df1 highs) x)"
    then have "bearish_pair mcfg df1 highs x = Inr (Some s)" by (rule emitted_Some)
    then show "ds_idx s = highs ! (x + 1)" by (simp add: bearish_pair_Some)
  next
    fix x show "length (emitted (bearish_pair mcfg df1 highs) x) \<le> 1" by (rule length_emitted)
  qed
  show "sorted_wrt (<) (map ds_idx (filter (\<lambda>s. ds_type s = Bullish) sigs))"
    using sB fB by simp
  show "sorted_wrt (<) (map ds_idx (filter (\<lambda>s. ds_type s = Bearish) sigs))"
    using sR fR by simp
  show "sigs = filter (\<lambda>s. ds_type s = Bullish) sigs @ filter (\<lambda>s. ds_type s = Bearish) sigs"
    using fB fR sigs by simp
qed

lemma calc_macd_total:
  assumes "1 \<le> short_window cfg" "1 \<le> long_window cfg" "1 \<le> signal_window cfg"
  shows "\<exists>diff dea hist. calc_macd cfg close = Inr (diff, dea, hist)"
proof -
  obtain es where es: "ewm_mean (short_window cfg) close = Inr es"
    using assms ewm_mean_total by blast
  obtain el where el: "ewm_mean (long_window cfg) close = Inr el"
    using assms ewm_mean_total by blast
  obtain dea where "ewm_mean (signal_window cfg) (map2 (-) es el) = Inr dea"
    using assms ewm_mean_total by blast
  with es el show ?thesis by (simp add: calc_macd_def Let_def)
qed

lemma pair_signals_none:
  assumes "\<And>k. k + 1 < length idxs \<Longrightarrow> \<not> P (idxs ! k) (idxs ! (k + 1))"
  shows "pair_signals P f idxs = []"
  using assms by (auto simp: pair_signals_def)

lemma to_datetime_of_nat: "to_datetime (real n) = int n"
  by (simp add: to_datetime_def)

lemma spec_gap_positional:
  assumes a: "a < n" and b: "b < n" and small: "int n \<le> ns_per_day"
    and gap: "1 \<le> min_gap_days cfg"
  shows "\<not> spec_gap cfg (range_index n) a b"
proof -
  have "to_datetime (range_index n ! b) - to_datetime (range_index n ! a) = int b - int a"
    using a b by (simp add: range_index_def to_datetime_of_nat)
  moreover have "int b - int a < ns_per_day" using b small by linarith
  moreover have "ns_per_day \<le> min_gap_days cfg * ns_per_day"
    using gap by (simp add: ns_per_day_def)
  ultimately show ?thesis by (simp add: spec_gap_def)
qed

lemma prepare_df_positional:
  assumes nodate: "''date'' \<notin> set (labels df)" and noidx: "''index'' \<notin> set (labels df)"
    and unnamed: "index_name df = None" and pos: "index df = range_index (nrows df)"
  shows "prepare_df msg df =
     check_columns msg required_columns
       (df\<lparr>columns := (''date'', range_index (nrows df)) # columns df\<rparr>)"
proof -
  have nm: "reset_name df = ''index''" using unnamed noidx by (simp add: reset_name_def)
  have r: "reset_index df = Inr (df\<lparr>columns := (''index'', range_index (nrows df)) # columns df\<rparr>)"
    using nm noidx unnamed pos by (simp add: reset_index_def Let_def)
  have "map (\<lambda>cv. (if fst cv = ''index'' then ''date'' else fst cv, snd cv)) (columns df) = columns df"
    using noidx by (intro map_idI) (force simp: labels_def)
  then have "rename_column ''index'' ''date''
       (df\<lparr>columns := (''index'', range_index (nrows df)) # columns df\<rparr>)
     = df\<lparr>columns := (''date'', range_index (nrows df)) # columns df\<rparr>"
    by (simp add: rename_column_def)
  with r nodate show ?thesis by (simp add: prepare_df_def)
qed

section \<open>Positional dates: no divergence signal at all\<close>

text \<open>
  Claim C9, as amended. Take a table without a \<^verbatim>\<open>date\<close> column whose index is the
  default one (unnamed, the positions 0, 1, 2, ...), so that \<^verbatim>\<open>_prepare_df\<close> makes the
  positions the \<^verbatim>\<open>date\<close> column (the table has no column \<^verbatim>\<open>index\<close> of its own that
  would be taken instead). \<^verbatim>\<open>pd.to_datetime\<close> reads a position as that many
  nanoseconds, so two rows of a table of at most 86 400 000 000 000 rows, the nanoseconds
  of one day, are less than a day apart. With \<open>min_gap_days\<close> at least 1 every list the
  divergence scan returns is empty, and it does return the empty list when the five
  required columns are there and the spans are valid. A table whose index holds dates is
  another matter: the dates become the \<^verbatim>\<open>date\<close> column and the scan emits as usual.
\<close>

theorem positional_dates_never_diverge:
  assumes wf: "wf_frame df"
    and nodate: "''date'' \<notin> set (labels df)" and noidx: "''index'' \<notin> set (labels df)"
    and unnamed: "index_name df = None" and pos: "index df = range_index (nrows df)"
    and small: "int (nrows df) \<le> ns_per_day"
    and gap: "1 \<le> min_gap_days cfg"
  shows "(\<forall>sigs. macd_detect_signals cfg df = Inr sigs \<longrightarrow> sigs = [])
       \<and> (set required_columns \<subseteq> set (labels df) \<and> 1 \<le> short_window cfg
            \<and> 1 \<le> long_window cfg \<and> 1 \<le> signal_window cfg
          \<longrightarrow> macd_detect_signals cfg df = Inr [])"
proof -
  let ?df' = "df\<lparr>columns := (''date'', range_index (nrows df)) # columns df\<rparr>"
  let ?ds = "range_index (nrows df)"
  have prep: "macd_prepare_df df = check_columns ''DataFrame missing required column: '' required_columns ?df'"
    unfolding macd_prepare_df_def by (rule prepare_df_positional[OF nodate noidx unnamed pos])
  have date: "column ?df' ''date'' = Some ?ds" by (simp add: column_def)
  have empty: "macd_detect_signals cfg df = Inr []"
    if p: "macd_prepare_df df = Inr ?df'" and c: "column ?df' ''close'' = Some cs"
      and m: "calc_macd cfg cs = Inr (diff, dea, hist)" for cs diff dea hist
  proof -
    have "column df ''close'' = Some cs" using c by (simp add: column_def)
    then have len: "length cs = nrows df"
      using wf by (intro rectangular_column[of df]) (simp_all add: wf_frame_rectangular)
    have nogap: "\<not> spec_gap cfg ?ds (idxs ! k) (idxs ! (k + 1))"
      if "k + 1 < length idxs" "set idxs \<subseteq> {..<length cs}" for idxs k
    proof -
      from that have "idxs ! k \<in> set idxs" "idxs ! (k + 1) \<in> set idxs" by simp_all
      with that(2) len have "idxs ! k < nrows df" "idxs ! (k + 1) < nrows df" by auto
      then show ?thesis by (rule spec_gap_positional[OF _ _ small gap])
    qed
    have sub: "set (find_local_extrema cs 3 mode) \<subseteq> {..<length cs}" for mode
      using find_local_extrema_less by auto
    have "pair_signals (spec_bullish cfg ?ds cs hist) (div_signal_of Bullish ?ds cs hist)
            (find_local_extrema cs 3 ''min'') = []"
      using nogap[OF _ sub] by (intro pair_signals_none) (simp add: spec_bullish_def)
    moreover have "pair_signals (spec_bearish cfg ?ds cs hist) (div_signal_of Bearish ?ds cs hist)
            (find_local_extrema cs 3 ''max'') = []"
      using nogap[OF _ sub] by (intro pair_signals_none) (simp add: spec_bearish_def)
    ultimately show ?thesis
      using macd_detect_signals_eq[OF p c date m] by simp
  qed
  have none: "sigs = []" if ret: "macd_detect_signals cfg df = Inr sigs" for sigs
  proof -
    from ret obtain df0 where p0: "macd_prepare_df df = Inr df0"
      by (auto simp: macd_detect_signals_def split: sum.splits)
    then have df0: "df0 = ?df'" using prep by (simp add: check_columns_Inr)
    from ret p0 obtain cs where c: "column df0 ''close'' = Some cs"
      by (auto simp: macd_detect_signals_def with_column_def split: option.splits)
    from ret p0 c obtain diff dea hist where m: "calc_macd cfg cs = Inr (diff, dea, hist)"
      by (cases "calc_macd cfg cs") (auto simp: macd_detect_signals_def with_column_def)
    from empty[OF p0[unfolded df0] c[unfolded df0] m] ret show ?thesis by simp
  qed
  have total: "macd_detect_signals cfg df = Inr []"
    if req: "set required_columns \<subseteq> set (labels df)"
      and sp: "1 \<le> short_window cfg" "1 \<le> long_window cfg" "1 \<le> signal_window cfg"
  proof -
    have "set required_columns \<subseteq> set (labels ?df')" using req by (auto simp: labels_def)
    then have p: "macd_prepare_df df = Inr ?df'" using prep by (simp add: check_columns_Inr)
    have "''close'' \<in> set (labels ?df')"
      using \<open>set required_columns \<subseteq> set (labels ?df')\<close> by (auto simp: required_columns_def)
    then obtain cs where c: "column ?df' ''close'' = Some cs" using labels_column by blast
    obtain diff dea hist where m: "calc_macd cfg cs = Inr (diff, dea, hist)"
      using calc_macd_total[OF sp] by blast
    show ?thesis by (rule empty[OF p c m])
  qed
  from none total show ?thesis by blast
qed







section \<open>The normalizer\<close>


section \<open>The store\<close>

lemma untouched_refl: "untouched s s"
  by (simp add: untouched_def list_all_iff)

lemma untouched_trans: "untouched s s' \<Longrightarrow> untouched s' s'' \<Longrightarrow> untouched s s''"
  by (auto simp: untouched_def list_all_iff)

lemma new_frame_props:
  assumes "new_frame df s = (r, s')"
  shows "r = lim s" "frames s' r = df" "untouched s s'" "lim s' = Suc (lim s)"
  using assms by (auto simp: new_frame_def untouched_def list_all_iff)

lemma st_prepare_df_pure:
  assumes "st_prepare_df msg a s = (res, s')" and a: "a < lim s"
  shows "untouched s s'"
    and "case res of Inl e \<Rightarrow> prepare_df msg (frames s a) = Inl e
         | Inr d \<Rightarrow> prepare_df msg (frames s a) = Inr (frames s' d) \<and> lim s \<le> d \<and> d < lim s'"
proof -
  obtain df s1 where n1: "new_frame (frames s a) s = (df, s1)" by (cases "new_frame (frames s a) s")
  note p1 = new_frame_props[OF n1]
  have f1: "frames s1 df = frames s a" using p1 by simp
  show "untouched s s'"
    and "case res of Inl e \<Rightarrow> prepare_df msg (frames s a) = Inl e
         | Inr d \<Rightarrow> prepare_df msg (frames s a) = Inr (frames s' d) \<and> lim s \<le> d \<and> d < lim s'"
  proof (atomize (full), cases "''date'' \<in> set (labels (frames s a))")
    case True
    show "untouched s s' \<and> (case res of Inl e \<Rightarrow> prepare_df msg (frames s a) = Inl e
         | Inr d \<Rightarrow> prepare_df msg (frames s a) = Inr (frames s' d) \<and> lim s \<le> d \<and> d < lim s')"
    proof (cases "sort_values ''date'' (frames s a)")
      case (Inl e)
      with True n1 f1 assms(1) have "res = Inl e" "s' = s1"
        by (auto simp: st_prepare_df_def)
      with Inl True p1 show ?thesis by (simp add: prepare_df_def)
    next
      case (Inr sorted_df)
      obtain t s2 where n2: "new_frame sorted_df s1 = (t, s2)" by (cases "new_frame sorted_df s1")
      note p2 = new_frame_props[OF n2]
      obtain d s3 where n3: "new_frame (reset_index_drop (frames s2 t)) s2 = (d, s3)"
        by (cases "new_frame (reset_index_drop (frames s2 t)) s2")
      note p3 = new_frame_props[OF n3]
      have u: "untouched s s3"
        using p1(3) p2(3) p3(3) untouched_trans by blast
      have fd: "frames s3 d = reset_index_drop sorted_df" using p2 p3 by simp
      have d: "lim s \<le> d" "d < lim s3" using p1 p2 p3 by simp_all
      have "(res, s') =
           (case check_columns msg required_columns (frames s3 d) of
              Inl e \<Rightarrow> (Inl e, s3) | Inr _ \<Rightarrow> (Inr d, s3))"
        using True Inr n1 n2 n3 f1 assms(1) by (simp add: st_prepare_df_def)
      moreover have "prepare_df msg (frames s a) =
           check_columns msg required_columns (frames s3 d)"
        using True Inr fd by (simp add: prepare_df_def)
      ultimately show ?thesis using u d
        by (auto simp: check_columns_Inr split: sum.splits)
    qed
  next
    case False
    show "untouched s s' \<and> (case res of Inl e \<Rightarrow> prepare_df msg (frames s a) = Inl e
         | Inr d \<Rightarrow> prepare_df msg (frames s a) = Inr (frames s' d) \<and> lim s \<le> d \<and> d < lim s')"
    proof (cases "reset_index (frames s a)")
      case (Inl e)
      with False n1 f1 assms(1) have "res = Inl e" "s' = s1"
        by (auto simp: st_prepare_df_def)
      with Inl False p1 show ?thesis by (simp add: prepare_df_def)
    next
      case (Inr r)
      obtain t s2 where n2: "new_frame r s1 = (t, s2)" by (cases "new_frame r s1")
      note p2 = new_frame_props[OF n2]
      obtain d s3 where n3: "new_frame (rename_column ''index'' ''date'' (frames s2 t)) s2 = (d, s3)"
        by (cases "new_frame (rename_column ''index'' ''date'' (frames s2 t)) s2")
      note p3 = new_frame_props[OF n3]
      have u: "untouched s s3"
        using p1(3) p2(3) p3(3) untouched_trans by blast
      have fd: "frames s3 d = rename_column ''index'' ''date'' r" using p2 p3 by simp
      have d: "lim s \<le> d" "d < lim s3" using p1 p2 p3 by simp_all
      have "(res, s') =
           (case check_columns msg required_columns (frames s3 d) of
              Inl e \<Rightarrow> (Inl e, s3) | Inr _ \<Rightarrow> (Inr d, s3))"
        using False Inr n1 n2 n3 f1 assms(1) by (simp add: st_prepare_df_def)
      moreover have "prepare_df msg (frames s a) =
           check_columns msg required_columns (frames s3 d)"
        using False Inr fd by (simp add: prepare_df_def)
      ultimately show ?thesis using u d
        by (auto simp: check_columns_Inr split: sum.splits)
    qed
  qed
qed

lemma st_kt_detect_signals_pure:
  assumes a: "a < lim s"
  shows "fst (st_kt_detect_signals cfg a s) = kt_detect_signals cfg (frames s a)"
    and "untouched s (snd (st_kt_detect_signals cfg a s))"
proof -
  obtain res s' where p: "st_prepare_df ''data frame missing required column: '' a s = (res, s')"
    by (cases "st_prepare_df ''data frame missing required column: '' a s")
  note q = st_prepare_df_pure[OF p a]
  show "fst (st_kt_detect_signals cfg a s) = kt_detect_signals cfg (frames s a)"
    using p q(2)
    by (cases res) (simp_all add: st_kt_detect_signals_def kt_detect_signals_def kt_prepare_df_def)
  show "untouched s (snd (st_kt_detect_signals cfg a s))"
    using p q(1) by (cases res) (simp_all add: st_kt_detect_signals_def)
qed

lemma st_macd_detect_signals_pure:
  assumes a: "a < lim s"
  shows "fst (st_macd_detect_signals cfg a s) = macd_detect_signals cfg (frames s a)"
    and "untouched s (snd (st_macd_detect_signals cfg a s))"
proof -
  obtain res s' where p: "st_prepare_df ''DataFrame missing required column: '' a s = (res, s')"
    by (cases "st_prepare_df ''DataFrame missing required column: '' a s")
  note q = st_prepare_df_pure[OF p a]
  show "fst (st_macd_detect_signals cfg a s) = macd_detect_signals cfg (frames s a)"
    using p q(2)
    by (cases res)
       (auto simp: st_macd_detect_signals_def macd_detect_signals_def macd_prepare_df_def
          with_column_def Let_def split: option.splits sum.splits)
  show "untouched s (snd (st_macd_detect_signals cfg a s))"
  proof (cases res)
    case (Inl e)
    with p q(1) show ?thesis by (simp add: st_macd_detect_signals_def)
  next
    case (Inr d)
    with q(2) have d: "lim s \<le> d" by simp
    have "untouched s (s'\<lparr>frames := (frames s')(d := f)\<rparr>)" for f
      using q(1) d by (auto simp: untouched_def list_all_iff)
    with p q(1) Inr show ?thesis
      by (auto simp: st_macd_detect_signals_def Let_def split: option.splits sum.splits)
  qed
qed


section \<open>A scan can be repeated\<close>

text \<open>
  Claim C8. Let \<open>a\<close> refer to a table of the store. Either scan returns what the pure
  function of the configuration and of that table returns, and leaves the table as it
  was; so running the scan again, on the store that the first run left behind, returns
  the same list of signals (or the same error).
\<close>

theorem scans_are_repeatable:
  assumes "a < lim s"
  shows "fst (st_kt_detect_signals kcfg a (snd (st_kt_detect_signals kcfg a s)))
           = fst (st_kt_detect_signals kcfg a s)
       \<and> fst (st_kt_detect_signals kcfg a s) = kt_detect_signals kcfg (frames s a)
       \<and> frames (snd (st_kt_detect_signals kcfg a s)) a = frames s a
       \<and> fst (st_macd_detect_signals mcfg a (snd (st_macd_detect_signals mcfg a s)))
           = fst (st_macd_detect_signals mcfg a s)
       \<and> fst (st_macd_detect_signals mcfg a s) = macd_detect_signals mcfg (frames s a)
       \<and> frames (snd (st_macd_detect_signals mcfg a s)) a = frames s a"
proof -
  let ?k = "snd (st_kt_detect_signals kcfg a s)"
  let ?m = "snd (st_macd_detect_signals mcfg a s)"
  have uk: "untouched s ?k" and um: "untouched s ?m"
    using assms by (simp_all add: st_kt_detect_signals_pure st_macd_detect_signals_pure)
  then have ak: "a < lim ?k" "frames ?k a = frames s a"
    and am: "a < lim ?m" "frames ?m a = frames s a"
    using assms by (auto simp: untouched_def list_all_iff)
  show ?thesis
    using st_kt_detect_signals_pure(1)[OF assms, of kcfg]
      st_kt_detect_signals_pure(1)[OF ak(1), of kcfg] ak(2)
      st_macd_detect_signals_pure(1)[OF assms, of mcfg]
      st_macd_detect_signals_pure(1)[OF am(1), of mcfg] am(2)
    by simp
qed

chapter \<open>Worked examples\<close>


text \<open>
  In that example the bar at index 3 sits exactly on every threshold: its range is twice
  the average range, its body is \<open>body_max_ratio\<close> of the range, its lower shadow is
  \<open>tail_min_ratio\<close> times the body and four tenths of the range. It passes.
\<close>

lemma kt_example_at_thresholds:
  "full_range_at [22, 21, 20, 10] [17, 16, 15, 0] 3 = 2 * avg_range_at 3 [22, 21, 20, 10] [17, 16, 15, 0] 3
   \<and> body_at [20, 19, 18, 6] [20, 19, 18, 4] 3 / full_range_at [22, 21, 20, 10] [17, 16, 15, 0] 3
       = body_max_ratio kt_example_cfg
   \<and> lower_shadow_at [20, 19, 18, 6] [17, 16, 15, 0] [20, 19, 18, 4] 3
       = tail_min_ratio kt_example_cfg * max (body_at [20, 19, 18, 6] [20, 19, 18, 4] 3) eps
   \<and> lower_shadow_at [20, 19, 18, 6] [17, 16, 15, 0] [20, 19, 18, 4] 3
        / full_range_at [22, 21, 20, 10] [17, 16, 15, 0] 3 = 4 / 10"
  by code_simp


text \<open>
  A table of one bar that passes the three shape gates: with \<open>trend_required\<close> nothing
  is emitted, and the same scan without the trend gate emits it.
\<close>

theorem trend_gate_fails_closed_witness:
  "trend_required kt_example_cfg \<and> int 0 < min_trend_days kt_example_cfg
   \<and> kt_scan_bar kt_example_cfg kt_single_prepared 0 = Inr None
   \<and> kt_detect_signals kt_example_cfg kt_single_frame = Inr []"
proof -
  have prep: "kt_prepare_df kt_single_frame = Inr kt_single_prepared" by code_simp
  have trend: "trend_required kt_example_cfg" by code_simp
  have few: "int 0 < min_trend_days kt_example_cfg" by code_simp
  have ret: "kt_detect_signals kt_example_cfg kt_single_frame = Inr []" by code_simp
  from trend_gate_fails_closed[OF prep trend few] trend few ret show ?thesis by simp
qed

lemma kt_single_without_trend:
  "kt_detect_signals (kt_example_cfg\<lparr>trend_required := False\<rparr>) kt_single_frame =
     Inr [\<lparr>ts_date = 0, ts_type = Lower, ts_body = 2, ts_lower_shadow = 4,
           ts_upper_shadow = 4, ts_full_range = 10, ts_close = 4, ts_open = 6, ts_idx = 0\<rparr>]"
  by code_simp

section \<open>The divergence scan on twelve daily bars\<close>

lemma calc_macd_min_gap_days:
  "calc_macd (cfg\<lparr>min_gap_days := g\<rparr>) close = calc_macd cfg close"
  by (simp add: calc_macd_def cong: sum.case_cong)

lemma pair_signals_2: "pair_signals P f [a, b] = (if P a b then [f a b] else [])"
  by (simp add: pair_signals_def)

lemma pair_signals_3:
  "pair_signals P f [a, b, c] =
     (if P a b then [f a b] else []) @ (if P b c then [f b c] else [])"
  by (simp add: pair_signals_def upt_rec)

lemma macd_example_calc:
  "calc_macd macd_example_cfg macd_example_close
     = Inr (macd_example_diff, macd_example_dea, macd_example_hist)"
  by (simp add: calc_macd_def ewm_mean_def macd_example_cfg_def macd_example_close_def
      macd_example_diff_def macd_example_dea_def macd_example_hist_def Let_def)

lemma macd_example_extrema:
  "find_local_extrema macd_example_close 3 ''min'' = [3, 9]"
  "find_local_extrema macd_example_close 3 ''max'' = [0, 5, 10]"
  by code_simp+

lemma macd_example_tests:
  "spec_bullish macd_example_cfg macd_example_dates macd_example_close macd_example_hist 3 9"
  "spec_bearish macd_example_cfg macd_example_dates macd_example_close macd_example_hist 0 5"
  "\<not> spec_bearish macd_example_cfg macd_example_dates macd_example_close macd_example_hist 5 10"
  by (simp_all add: spec_bullish_def spec_bearish_def spec_gap_def to_datetime_def ns_per_day_def
      macd_example_cfg_def macd_example_dates_def macd_example_close_def macd_example_hist_def)

lemma macd_example_detect_from:
  assumes prep: "macd_prepare_df df = Inr macd_example_frame"
  shows "macd_detect_signals macd_example_cfg df = Inr macd_example_signals"
proof -
  have cols: "column macd_example_frame ''close'' = Some macd_example_close"
    "column macd_example_frame ''date'' = Some macd_example_dates"
    by code_simp+
  show ?thesis
    unfolding macd_detect_signals_eq[OF prep cols macd_example_calc] macd_example_extrema
      pair_signals_2 pair_signals_3
    using macd_example_tests by (simp add: macd_example_signals_def)
qed

lemma macd_example_detect:
  "macd_detect_signals macd_example_cfg macd_example_frame = Inr macd_example_signals"
proof -
  have "macd_prepare_df macd_example_frame = Inr macd_example_frame" by code_simp
  then show ?thesis by (rule macd_example_detect_from)
qed

theorem divergence_signal_iff_witness:
  "find_local_extrema macd_example_close 3 ''min'' = [3, 9]
   \<and> find_local_extrema macd_example_close 3 ''max'' = [0, 5, 10]
   \<and> spec_bullish macd_example_cfg macd_example_dates macd_example_close macd_example_hist 3 9
   \<and> \<not> spec_bearish macd_example_cfg macd_example_dates macd_example_close macd_example_hist 5 10
   \<and> (\<exists>sigs. macd_detect_signals macd_example_cfg macd_example_frame = Inr sigs
         \<and> length (filter (\<lambda>s. ds_type s = Bullish \<and> ds_idx s = 9) sigs) = 1
         \<and> length (filter (\<lambda>s. ds_type s = Bearish \<and> ds_idx s = 10) sigs) = 0)"
proof -
  have wf: "wf_frame macd_example_frame" by code_simp
  have prep: "macd_prepare_df macd_example_frame = Inr macd_example_frame" by code_simp
  have cols: "column macd_example_frame ''close'' = Some macd_example_close"
    "column macd_example_frame ''date'' = Some macd_example_dates"
    by code_simp+
  note macd = macd_example_calc
  note lows = macd_example_extrema(1) and highs = macd_example_extrema(2)
  note bull = macd_example_tests(1) and bear = macd_example_tests(3)
  from divergence_signal_iff[OF wf prep cols macd] obtain sigs where
    ret: "macd_detect_signals macd_example_cfg macd_example_frame = Inr sigs"
    and b: "\<forall>i. i + 1 < length [3, 9 :: nat] \<longrightarrow>
          length (filter (\<lambda>s. ds_type s = Bullish \<and> ds_idx s = [3, 9] ! (i + 1)) sigs)
            = (if spec_bullish macd_example_cfg macd_example_dates macd_example_close
                    macd_example_hist ([3, 9] ! i) ([3, 9] ! (i + 1)) then 1 else 0)"
    and r: "\<forall>i. i + 1 < length [0, 5, 10 :: nat] \<longrightarrow>
          length (filter (\<lambda>s. ds_type s = Bearish \<and> ds_idx s = [0, 5, 10] ! (i + 1)) sigs)
            = (if spec_bearish macd_example_cfg macd_example_dates macd_example_close
                    macd_example_hist ([0, 5, 10] ! i) ([0, 5, 10] ! (i + 1)) then 1 else 0)"
    unfolding lows highs Let_def by blast
  from b[rule_format, of 0] bull
  have "length (filter (\<lambda>s. ds_type s = Bullish \<and> ds_idx s = 9) sigs) = 1" by simp
  moreover from r[rule_format, of 1] bear
  have "length (filter (\<lambda>s. ds_type s = Bearish \<and> ds_idx s = 10) sigs) = 0" by simp
  ultimately show ?thesis using lows highs bull bear ret by blast
qed

text \<open>
  The same closes with \<open>min_gap_days = 7\<close>: the two pairs that diverge are five and six
  days apart, and nothing is emitted.
\<close>

lemma macd_example_gap_too_short:
  "macd_detect_signals (macd_example_cfg\<lparr>min_gap_days := 7\<rparr>) macd_example_frame = Inr []"
proof -
  have prep: "macd_prepare_df macd_example_frame = Inr macd_example_frame" by code_simp
  have cols: "column macd_example_frame ''close'' = Some macd_example_close"
    "column macd_example_frame ''date'' = Some macd_example_dates"
    by code_simp+
  have macd: "calc_macd (macd_example_cfg\<lparr>min_gap_days := 7\<rparr>) macd_example_close
     = Inr (macd_example_diff, macd_example_dea, macd_example_hist)"
    by (simp only: calc_macd_min_gap_days macd_example_calc)
  show ?thesis
    unfolding macd_detect_signals_eq[OF prep cols macd] macd_example_extrema
      pair_signals_2 pair_signals_3
    by (simp add: spec_bullish_def spec_bearish_def spec_gap_def to_datetime_def ns_per_day_def
        macd_example_cfg_def macd_example_dates_def)
qed

theorem divergence_indices_are_extrema_witness:
  "macd_detect_signals macd_example_cfg macd_example_frame = Inr macd_example_signals
   \<and> spec_local_min macd_example_close 3 3 \<and> spec_local_min macd_example_close 3 9
   \<and> spec_local_max macd_example_close 3 0 \<and> spec_local_max macd_example_close 3 5"
proof -
  have wf: "wf_frame macd_example_frame" by code_simp
  have prep: "macd_prepare_df macd_example_frame = Inr macd_example_frame" by code_simp
  have cols: "column macd_example_frame ''close'' = Some macd_example_close"
    "column macd_example_frame ''date'' = Some macd_example_dates"
    by code_simp+
  note macd = macd_example_calc
  note ret = macd_example_detect
  let ?b = "div_signal_of Bullish macd_example_dates macd_example_close macd_example_hist 3 9"
  let ?r = "div_signal_of Bearish macd_example_dates macd_example_close macd_example_hist 0 5"
  from divergence_indices_are_extrema[OF wf prep cols macd] ret
  have all: "\<forall>s\<in>set macd_example_signals.
          (ds_type s = Bullish \<longrightarrow>
             (\<exists>k. k + 1 < length [3, 9 :: nat]
                \<and> spec_local_min macd_example_close 3 ([3, 9] ! k)
                \<and> spec_local_min macd_example_close 3 (ds_idx s)))
        \<and> (ds_type s = Bearish \<longrightarrow>
             (\<exists>k. k + 1 < length [0, 5, 10 :: nat]
                \<and> s = div_signal_of Bearish macd_example_dates macd_example_close
                      macd_example_hist ([0, 5, 10] ! k) ([0, 5, 10] ! (k + 1))
                \<and> spec_local_max macd_example_close 3 ([0, 5, 10] ! k)
                \<and> spec_local_max macd_example_close 3 (ds_idx s)))"
    unfolding macd_example_extrema by fastforce
  have "?b \<in> set macd_example_signals" "ds_type ?b = Bullish" "ds_idx ?b = 9"
    by (simp_all add: macd_example_signals_def div_signal_of_def)
  with all have b: "spec_local_min macd_example_close 3 3 \<and> spec_local_min macd_example_close 3 9"
    by force
  have "?r \<in> set macd_example_signals" "ds_type ?r = Bearish" "ds_idx ?r = 5"
    by (simp_all add: macd_example_signals_def div_signal_of_def)
  with all obtain k where k: "k + 1 < length [0, 5, 10 :: nat]"
    "?r = div_signal_of Bearish macd_example_dates macd_example_close
            macd_example_hist ([0, 5, 10] ! k) ([0, 5, 10] ! (k + 1))"
    "spec_local_max macd_example_close 3 ([0, 5, 10] ! k)"
    "spec_local_max macd_example_close 3 5"
    by force
  from k(1) have "k = 0 \<or> k = 1" by auto
  with k(2) have "k = 0" by (auto simp: div_signal_of_def)
  with k(3,4) b ret show ?thesis by simp
qed

theorem histogram_starts_at_zero_witness:
  "macd_example_close \<noteq> []
   \<and> calc_macd macd_example_cfg macd_example_close
       = Inr (macd_example_diff, macd_example_dea, macd_example_hist)
   \<and> length macd_example_hist = length macd_example_close
   \<and> macd_example_diff ! 0 = 0 \<and> macd_example_dea ! 0 = macd_example_diff ! 0
   \<and> macd_example_hist ! 0 = 0"
proof -
  have ne: "macd_example_close \<noteq> []" by (simp add: macd_example_close_def)
  from histogram_starts_at_zero[OF ne, of macd_example_cfg] macd_example_calc ne
  show ?thesis by blast
qed

lemma kt_example_detect:
  "kt_detect_signals kt_example_cfg kt_example_frame =
     Inr [\<lparr>ts_date = 3, ts_type = Lower, ts_body = 2, ts_lower_shadow = 4,
           ts_upper_shadow = 4, ts_full_range = 10, ts_close = 4, ts_open = 6, ts_idx = 3\<rparr>]"
  by code_simp

theorem signals_ascending_within_each_loop_witness:
  "(\<exists>sigs. kt_detect_signals kt_example_cfg kt_example_frame = Inr sigs
        \<and> sorted_wrt (<) (map ts_idx sigs))
   \<and> macd_detect_signals macd_example_cfg macd_example_frame = Inr macd_example_signals
   \<and> sorted_wrt (<) (map ds_idx (filter (\<lambda>s. ds_type s = Bullish) macd_example_signals))
   \<and> sorted_wrt (<) (map ds_idx (filter (\<lambda>s. ds_type s = Bearish) macd_example_signals))
   \<and> macd_example_signals = filter (\<lambda>s. ds_type s = Bullish) macd_example_signals
        @ filter (\<lambda>s. ds_type s = Bearish) macd_example_signals"
  using signals_ascending_within_each_loop[of kt_example_cfg kt_example_frame
      macd_example_cfg macd_example_frame]
    kt_example_detect macd_example_detect
  by blast

text \<open>
  In the example the bullish signal at index 9 comes before the bearish signal at index
  5: the returned list as a whole is not ascending.
\<close>

theorem signals_sorted_counterexample:
  "macd_detect_signals macd_example_cfg macd_example_frame = Inr macd_example_signals
   \<and> map ds_idx macd_example_signals = [9, 5]
   \<and> \<not> sorted (map ds_idx macd_example_signals)"
  using macd_example_detect by (simp add: macd_example_signals_def div_signal_of_def)

theorem positional_dates_never_diverge_witness:
  "macd_detect_signals macd_example_cfg macd_positional_frame = Inr []"
proof -
  have wf: "wf_frame macd_positional_frame" by code_simp
  have nodate: "''date'' \<notin> set (labels macd_positional_frame)" by code_simp
  have noidx: "''index'' \<notin> set (labels macd_positional_frame)" by code_simp
  have unnamed: "index_name macd_positional_frame = None" by code_simp
  have pos: "index macd_positional_frame = range_index (nrows macd_positional_frame)" by code_simp
  have small: "int (nrows macd_positional_frame) \<le> ns_per_day" by code_simp
  have gap: "1 \<le> min_gap_days macd_example_cfg" by code_simp
  have req: "set required_columns \<subseteq> set (labels macd_positional_frame)" by code_simp
  have sp: "1 \<le> short_window macd_example_cfg" "1 \<le> long_window macd_example_cfg"
    "1 \<le> signal_window macd_example_cfg" by code_simp+
  from positional_dates_never_diverge[OF wf nodate noidx unnamed pos small gap] req sp
  show ?thesis by blast
qed

text \<open>
  The same bars once more without a \<^verbatim>\<open>date\<close> column, but under an index named
  \<^verbatim>\<open>date\<close> that holds the twelve days, as \<^verbatim>\<open>get_data_in_range\<close> builds its tables:
  \<^verbatim>\<open>_prepare_df\<close> turns the index into the \<^verbatim>\<open>date\<close> column and the scan emits both
  signals.
\<close>

theorem positional_dates_counterexample:
  "''date'' \<notin> set (labels macd_indexed_frame)
   \<and> 1 \<le> min_gap_days macd_example_cfg
   \<and> macd_detect_signals macd_example_cfg macd_indexed_frame = Inr macd_example_signals
   \<and> macd_example_signals \<noteq> []"
proof -
  have "macd_prepare_df macd_indexed_frame = Inr macd_example_frame" by code_simp
  then have "macd_detect_signals macd_example_cfg macd_indexed_frame = Inr macd_example_signals"
    by (rule macd_example_detect_from)
  moreover have "''date'' \<notin> set (labels macd_indexed_frame)" by code_simp
  moreover have "1 \<le> min_gap_days macd_example_cfg" by code_simp
  ultimately show ?thesis by (simp add: macd_example_signals_def)
qed

section \<open>The normalizer on two rows\<close>


lemma unsorted_date_frame_sorted:
  "kt_prepare_df unsorted_date_frame = Inr unsorted_date_prepared"
  by code_simp


section \<open>Scanning twice\<close>

theorem scans_are_repeatable_witness:
  "0 < lim example_store
   \<and> fst (st_macd_detect_signals macd_example_cfg 0 example_store) = Inr macd_example_signals
   \<and> fst (st_macd_detect_signals macd_example_cfg 0
             (snd (st_macd_detect_signals macd_example_cfg 0 example_store)))
       = Inr macd_example_signals
   \<and> fst (st_kt_detect_signals kt_example_cfg 0
             (snd (st_kt_detect_signals kt_example_cfg 0 example_store)))
       = fst (st_kt_detect_signals kt_example_cfg 0 example_store)"
proof -
  have a: "0 < lim example_store" by (simp add: example_store_def)
  have f: "frames example_store 0 = macd_example_frame" by (simp add: example_store_def)
  from scans_are_repeatable[OF a, of kt_example_cfg macd_example_cfg] macd_example_detect a f
  show ?thesis by simp
qed

end
